theory Spec2Isabelle
  imports Complex_Main "HOL-Library.Char_ord" "HOL-Library.List_Lexorder"
begin

section \<open>Revisions\<close>

text \<open>
  \<^verbatim>\<open>script.js\<close> holds two revisions of the heater script, one after the other:
  revision 4.2 (lines 1-220) and revision 5.0 (lines 221-493). Functions that are the
  same in both are embedded once; functions that differ take the revision as their first
  argument and have one equation per revision.
\<close>

datatype revision = V42 | V50

section \<open>JavaScript primitives the script uses\<close>

text \<open>
  Numbers are IEEE doubles in the script. Seconds, months and error codes only ever hold
  integral values and are embedded as \<^typ>\<open>int\<close> or \<^typ>\<open>nat\<close>; temperatures and hours are
  embedded as \<^typ>\<open>real\<close>, so rounding errors of double arithmetic are not represented.
  A number that can be \<^verbatim>\<open>NaN\<close> is an \<^typ>\<open>int option\<close>, with \<^const>\<open>None\<close> for
  \<^verbatim>\<open>NaN\<close>.
\<close>

definition js_rem :: "int \<Rightarrow> int \<Rightarrow> int" where
  \<comment> \<open>The operator \<^verbatim>\<open>%\<close> on integral numbers: the remainder of the truncated division,
      with the sign of the dividend.\<close>
  "js_rem a b = sgn a * (\<bar>a\<bar> mod \<bar>b\<bar>)"

definition Math_round :: "real \<Rightarrow> int" where
  \<comment> \<open>\<^verbatim>\<open>Math.round\<close>: the nearest integer, a tie going up.\<close>
  "Math_round x = \<lfloor>x + 1 / 2\<rfloor>"

fun digits_of :: "nat \<Rightarrow> string" where
  "digits_of n =
     (if n < 10 then [''0123456789'' ! n]
      else digits_of (n div 10) @ [''0123456789'' ! (n mod 10)])"

declare digits_of.simps [simp del]

definition String_num :: "int \<Rightarrow> string" where
  \<comment> \<open>\<^verbatim>\<open>String(n)\<close>, and the implicit conversion of \<^verbatim>\<open>"text" + n\<close>, for an integral
      number.\<close>
  "String_num n = (if n < 0 then CHR ''-'' # digits_of (nat (- n)) else digits_of (nat n))"

definition String_bool :: "bool \<Rightarrow> string" where
  "String_bool b = (if b then ''true'' else ''false'')"

definition toFixed2 :: "real \<Rightarrow> string" where
  \<comment> \<open>\<^verbatim>\<open>x.toFixed(2)\<close> for \<open>\<bar>x\<bar> < 10\<^sup>2\<^sup>1\<close>.\<close>
  "toFixed2 x =
     (let n = nat \<lfloor>\<bar>x\<bar> * 100 + 1 / 2\<rfloor>
      in (if x < 0 then ''-'' else '''') @ digits_of (n div 100) @ ''.''
           @ [''0123456789'' ! (n div 10 mod 10), ''0123456789'' ! (n mod 10)])"

fun split_str :: "char \<Rightarrow> string \<Rightarrow> string list" where
  \<comment> \<open>\<^verbatim>\<open>s.split(c)\<close> for a separator of one character.\<close>
  "split_str c [] = [[]]"
| "split_str c (x # xs) =
     (if x = c then [] # split_str c xs
      else (case split_str c xs of
              [] \<Rightarrow> [[x]]
            | p # ps \<Rightarrow> (x # p) # ps))"

fun join_str :: "string \<Rightarrow> string list \<Rightarrow> string" where
  \<comment> \<open>\<^verbatim>\<open>parts.join(sep)\<close>.\<close>
  "join_str sep [] = []"
| "join_str sep [p] = p"
| "join_str sep (p # q # ps) = p @ sep @ join_str sep (q # ps)"

definition split_join :: "char \<Rightarrow> string \<Rightarrow> string \<Rightarrow> string" where
  \<comment> \<open>\<^verbatim>\<open>s.split(c).join(r)\<close>.\<close>
  "split_join c r s = join_str r (split_str c s)"

definition index_str :: "string list \<Rightarrow> nat \<Rightarrow> string" where
  \<comment> \<open>\<^verbatim>\<open>parts[i]\<close> where a string is needed: an index out of range gives
      \<^verbatim>\<open>undefined\<close>, which converts to the text "undefined".\<close>
  "index_str parts i = (if i < length parts then parts ! i else ''undefined'')"

definition isWhiteSpace :: "char \<Rightarrow> bool" where
  "isWhiteSpace c =
     (c = CHR '' '' \<or> c = CHR 0x09 \<or> c = CHR 0x0A \<or> c = CHR 0x0B \<or> c = CHR 0x0C \<or> c = CHR 0x0D)"

definition digitValue :: "char \<Rightarrow> nat option" where
  "digitValue c =
     map_of
       [(CHR ''0'', 0), (CHR ''1'', 1), (CHR ''2'', 2), (CHR ''3'', 3), (CHR ''4'', 4),
        (CHR ''5'', 5), (CHR ''6'', 6), (CHR ''7'', 7), (CHR ''8'', 8), (CHR ''9'', 9),
        (CHR ''a'', 10), (CHR ''b'', 11), (CHR ''c'', 12), (CHR ''d'', 13), (CHR ''e'', 14),
        (CHR ''f'', 15), (CHR ''A'', 10), (CHR ''B'', 11), (CHR ''C'', 12), (CHR ''D'', 13),
        (CHR ''E'', 14), (CHR ''F'', 15)] c"

fun radixDigits :: "nat \<Rightarrow> string \<Rightarrow> nat list" where
  \<comment> \<open>The values of the longest prefix of digits of the radix.\<close>
  "radixDigits R [] = []"
| "radixDigits R (c # cs) =
     (case digitValue c of
        None \<Rightarrow> []
      | Some d \<Rightarrow> if d < R then d # radixDigits R cs else [])"

definition parseInt :: "string \<Rightarrow> int option" where
  \<comment> \<open>\<^verbatim>\<open>parseInt(str)\<close> with no radix given: leading ASCII blanks are skipped, a sign is
      read, the prefix 0x selects radix 16, and the longest prefix of digits is the value;
      \<^verbatim>\<open>NaN\<close> when there is no digit.\<close>
  "parseInt str =
     (let s = dropWhile isWhiteSpace str;
          negative = (take 1 s = ''-'');
          s = (if take 1 s = ''-'' \<or> take 1 s = ''+'' then drop 1 s else s);
          hex = (take 2 s = ''0x'' \<or> take 2 s = ''0X'');
          R = (if hex then 16 else 10);
          s = (if hex then drop 2 s else s);
          ds = radixDigits R s;
          v = int (foldl (\<lambda>a d. a * R + d) 0 ds)
      in if ds = [] then None else Some (if negative then - v else v))"

section \<open>Helper functions of the script\<close>

fun urlEncode :: "revision \<Rightarrow> string \<Rightarrow> string" where
  "urlEncode V42 str =
     (let s = str;
          s = split_join CHR ''%'' ''%25'' s;
          s = split_join CHR '' '' ''%20'' s;
          s = split_join CHR ''&'' ''%26'' s;
          s = split_join CHR ''+'' ''%2B'' s;
          s = split_join CHR ''?'' ''%3F'' s;
          s = split_join CHR ''='' ''%3D'' s;
          s = split_join CHR ''#'' ''%23'' s;
          s = split_join CHR ''/'' ''%2F'' s;
          s = split_join CHR '':'' ''%3A'' s;
          s = split_join CHR '';'' ''%3B'' s;
          s = split_join CHR ''<'' ''%3C'' s;
          s = split_join CHR ''>'' ''%3E'' s;
          s = split_join CHR 0x22 ''%22'' s;
          s = split_join CHR 0x27 ''%27'' s;
          s = split_join CHR ''.'' ''%2E'' s;
          s = split_join CHR '','' ''%2C'' s
      in s)"
| "urlEncode V50 str =
     (let s = str;
          s = split_join CHR '' '' ''%20'' s;
          s = split_join CHR '':'' ''%3A'' s;
          s = split_join CHR ''.'' ''%2E'' s;
          s = split_join CHR '','' ''%2C'' s;
          s = split_join CHR 0x0A ''%0A'' s
      in s)"

definition timeToSeconds :: "string \<Rightarrow> int option" where
  "timeToSeconds timeStr =
     (let parts = split_str CHR '':'' timeStr
      in case (parseInt (index_str parts 0), parseInt (index_str parts 1)) of
           (Some h, Some m) \<Rightarrow> Some (h * 3600 + m * 60)
         | _ \<Rightarrow> None)"

definition secondsToTime :: "int option \<Rightarrow> string" where
  "secondsToTime seconds =
     (case seconds of
        None \<Rightarrow> ''NaN:NaN''
      | Some s \<Rightarrow>
          let h = s div 3600;
              m = js_rem s 3600 div 60
          in (if h < 10 then ''0'' else '''') @ String_num h @ '':''
               @ (if m < 10 then ''0'' else '''') @ String_num m)"

section \<open>Configuration, state and the device\<close>

record config =
  SWITCH_IDS :: "int list"
  CHARGING_WINDOW_START :: string
  CHARGING_WINDOW_END :: string
  LATITUDE :: string
  LONGITUDE :: string
  START_TEMP :: real
  SLOPE :: real
  MAX_RUNTIME_HOURS :: real
  FALLBACK_HOURS_Q1 :: real
  FALLBACK_HOURS_Q2 :: real
  FALLBACK_HOURS_Q3 :: real
  FALLBACK_HOURS_Q4 :: real
  TELEGRAM_BOT_TOKEN :: string
  TELEGRAM_CHAT_ID :: string
  SEND_TELEGRAM_SCHEDULE_LIST :: bool
  SEND_TELEGRAM_NEW_SCHEDULE :: bool
  IS_TEST_MODE :: bool
  TEST_INTERVAL_MINUTES :: int
  TIMEZONE :: string
  DATA_FETCH_TIME :: string

text \<open>
  The coordinates are kept as the text that the concatenation into the forecast URL
  gives them. Revision 4.2 has no \<^verbatim>\<open>SEND_TELEGRAM_...\<close> switches and never reads them.
  \<open>CONFIG\<close> is the configuration each revision ships with; the two differ in the
  test-mode flag only, which is set in revision 4.2 and clear in revision 5.0.
\<close>

definition CONFIG :: "revision \<Rightarrow> config" where
  "CONFIG rv =
     \<lparr> SWITCH_IDS = [0],
       CHARGING_WINDOW_START = ''22:00'',
       CHARGING_WINDOW_END = ''06:00'',
       LATITUDE = ''52.2768'',
       LONGITUDE = ''7.719'',
       START_TEMP = 15,
       SLOPE = 1 / 2,
       MAX_RUNTIME_HOURS = 8,
       FALLBACK_HOURS_Q1 = 6,
       FALLBACK_HOURS_Q2 = 2,
       FALLBACK_HOURS_Q3 = 0,
       FALLBACK_HOURS_Q4 = 5,
       TELEGRAM_BOT_TOKEN = [],
       TELEGRAM_CHAT_ID = [],
       SEND_TELEGRAM_SCHEDULE_LIST = False,
       SEND_TELEGRAM_NEW_SCHEDULE = False,
       IS_TEST_MODE = (rv = V42),
       TEST_INTERVAL_MINUTES = 5,
       TIMEZONE = ''Europe/Berlin'',
       DATA_FETCH_TIME = ''19:00'' \<rparr>"

text \<open>The global variables of the script.\<close>

record state =
  nextChargingDurationSeconds :: int
  lastAvgTemp :: real
  hasRunToday :: bool

definition initial_state :: state where
  "initial_state =
     \<lparr> nextChargingDurationSeconds = - 1, lastAvgTemp = - 999, hasRunToday = False \<rparr>"

text \<open>
  The calls the script issues with \<^verbatim>\<open>Shelly.call\<close>, in the order it issues them, are the
  observable behaviour of a run. \<^verbatim>\<open>Schedule.DeleteAll\<close> carries an \<^verbatim>\<open>id\<close> parameter in
  revision 4.2 only; \<^verbatim>\<open>Schedule.Create\<close> carries, in this order, the \<^verbatim>\<open>id\<close> parameter
  (revision 4.2 only), the \<^verbatim>\<open>timespec\<close>, and the switch id and the \<^verbatim>\<open>toggle_after\<close> of its
  \<^verbatim>\<open>Switch.Set\<close> call. Output of \<^verbatim>\<open>console.log\<close> is not part of the embedding.
\<close>

datatype rpc =
    HTTP_GET string
  | Sys_GetStatus
  | Schedule_List
  | Schedule_DeleteAll "int option"
  | Schedule_Create "int option" string int int

text \<open>
  What the device answers. The body of the forecast response is represented by what
  \<^verbatim>\<open>JSON.parse(res.body)\<close> and \<^verbatim>\<open>data.hourly.temperature_2m\<close> make of it: the hourly
  series, a list of numbers, or the message of the exception they throw. In a status,
  \<open>month\<close> stands for \<^verbatim>\<open>new Date(res.unixtime * 1000).getMonth() + 1\<close>. The answers to
  \<^verbatim>\<open>Schedule.Create\<close> are indexed by the position of the switch in \<^verbatim>\<open>SWITCH_IDS\<close>.
\<close>

datatype weather_body = Throws string | Series "real list"

record http_response =
  code :: int
  body :: weather_body

record sys_status =
  time :: string
  month :: nat

record job =
  job_id :: int
  enable :: bool
  timespec :: string

record env =
  weather_err :: int
  weather_res :: "http_response option"
  tick_status :: "sys_status option"
  fallback_status :: "sys_status option"
  list_err :: int
  list_res :: "job list option"
  delete_err :: int
  create_err :: "nat \<Rightarrow> int"

section \<open>The core of the script\<close>

definition telegramUrl :: "revision \<Rightarrow> config \<Rightarrow> string \<Rightarrow> string" where
  "telegramUrl rv cfg message =
     ''https://api.telegram.org/bot'' @ TELEGRAM_BOT_TOKEN cfg @ ''/sendMessage?chat_id=''
       @ TELEGRAM_CHAT_ID cfg @ ''&text='' @ urlEncode rv (''Shelly Heater: '' @ message)"

definition sendTelegramNotification :: "revision \<Rightarrow> config \<Rightarrow> string \<Rightarrow> rpc list" where
  "sendTelegramNotification rv cfg message =
     (if TELEGRAM_BOT_TOKEN cfg = [] \<or> TELEGRAM_CHAT_ID cfg = [] then []
      else [HTTP_GET (telegramUrl rv cfg message)])"

definition weatherUrl :: "config \<Rightarrow> string" where
  "weatherUrl cfg =
     ''https://api.open-meteo.com/v1/forecast?latitude='' @ LATITUDE cfg @ ''&longitude=''
       @ LONGITUDE cfg @ ''&hourly=temperature_2m&timezone='' @ TIMEZONE cfg
       @ ''&forecast_days=2''"

subsection \<open>The backward scheduler of revision 4.2\<close>

definition windowDurationSeconds :: "int \<Rightarrow> int \<Rightarrow> int" where
  \<comment> \<open>Lines 147-152.\<close>
  "windowDurationSeconds windowStartSeconds windowEndSeconds =
     (if windowStartSeconds > windowEndSeconds
      then (24 * 3600 - windowStartSeconds) + windowEndSeconds
      else windowEndSeconds - windowStartSeconds)"

text \<open>
  Lines 146-174 of \<^verbatim>\<open>scheduleCharging\<close>: from the two ends of the window and the
  required duration to \<^verbatim>\<open>dynamicStartSeconds\<close> and the new value of
  \<^verbatim>\<open>nextChargingDurationSeconds\<close>. When an end of the window is \<^verbatim>\<open>NaN\<close>, every comparison
  with it is false, so neither the cap nor the clamp applies; the start is computed from
  the end of the window alone.
\<close>

fun scheduleCharging_window :: "int option \<Rightarrow> int option \<Rightarrow> int \<Rightarrow> int option \<times> int" where
  "scheduleCharging_window (Some windowStartSeconds) (Some windowEndSeconds) required =
     (let windowDuration = windowDurationSeconds windowStartSeconds windowEndSeconds;
          capped = (if required > windowDuration then windowDuration else required);
          dynamicStartSeconds = js_rem (windowEndSeconds - capped + 24 * 3600) (24 * 3600);
          isOvernight = (windowStartSeconds > windowEndSeconds);
          startIsInWindow =
            (if isOvernight
             then dynamicStartSeconds \<ge> windowStartSeconds \<or> dynamicStartSeconds < windowEndSeconds
             else dynamicStartSeconds \<ge> windowStartSeconds \<and> dynamicStartSeconds < windowEndSeconds)
      in if \<not> startIsInWindow \<and> windowDuration > 0
         then (Some windowStartSeconds, windowDuration)
         else (Some dynamicStartSeconds, capped))"
| "scheduleCharging_window None (Some windowEndSeconds) required =
     (Some (js_rem (windowEndSeconds - required + 24 * 3600) (24 * 3600)), required)"
| "scheduleCharging_window windowStart None required = (None, required)"

declare scheduleCharging_window.simps [simp del]

subsection \<open>Applying the decision\<close>

definition cronExpr42 :: "string \<Rightarrow> string" where
  \<comment> \<open>Line 189.\<close>
  "cronExpr42 dynamicStartTimeStr =
     ''0 '' @ index_str (split_str CHR '':'' dynamicStartTimeStr) 1 @ '' ''
       @ index_str (split_str CHR '':'' dynamicStartTimeStr) 0 @ '' * * *''"

definition cronExpr50 :: "int option \<Rightarrow> string" where
  \<comment> \<open>Lines 403-405.\<close>
  "cronExpr50 dynamicStartSeconds =
     (case dynamicStartSeconds of
        None \<Rightarrow> ''0 NaN NaN * * *''
      | Some s \<Rightarrow>
          let h_cron = s div 3600;
              m_cron = js_rem s 3600 div 60
          in ''0 '' @ String_num m_cron @ '' '' @ String_num h_cron @ '' * * *'')"

definition dynamicStart50 :: "int option \<Rightarrow> int \<Rightarrow> int option" where
  \<comment> \<open>Line 400.\<close>
  "dynamicStart50 windowEndSeconds required =
     (case windowEndSeconds of
        None \<Rightarrow> None
      | Some e \<Rightarrow> Some (js_rem (e - required + 24 * 3600) (24 * 3600)))"

definition scheduleListMsg :: "job list option \<Rightarrow> string" where
  \<comment> \<open>Lines 366-374.\<close>
  "scheduleListMsg res =
     ''Existing schedules before deletion:'' @ [CHR 0x0A]
       @ (case res of
            None \<Rightarrow> ''No schedules found.''
          | Some jobs \<Rightarrow>
              if length jobs > 0
              then concat (map (\<lambda>j. [CHR 0x0A] @ ''ID: '' @ String_num (job_id j) @ '', Aktiv: ''
                                     @ String_bool (enable j) @ '', Cron: '' @ timespec j) jobs)
              else ''No schedules found.'')"

definition degreeC :: string where
  \<comment> \<open>The text of the degree sign and C, in UTF-8.\<close>
  "degreeC = [CHR 0xC2, CHR 0xB0, CHR ''C'']"

definition noChargingMsg :: "config \<Rightarrow> state \<Rightarrow> string" where
  \<comment> \<open>Lines 389-391.\<close>
  "noChargingMsg cfg st =
     ''No charging required.'' @ [CHR 0x0A, CHR 0x0A]
       @ ''Temperature forecast: '' @ toFixed2 (lastAvgTemp st) @ degreeC @ [CHR 0x0A]
       @ ''switch-on threshold: '' @ toFixed2 (START_TEMP cfg) @ degreeC"

definition newPlanMsg :: "config \<Rightarrow> state \<Rightarrow> string \<Rightarrow> string" where
  \<comment> \<open>Lines 410-418.\<close>
  "newPlanMsg cfg st dynamicStartTimeStr =
     (let durationMinutes = toFixed2 (real_of_int (nextChargingDurationSeconds st) / 60);
          durationHours = toFixed2 (real_of_int (nextChargingDurationSeconds st) / 3600)
      in ''New loading plan created.'' @ [CHR 0x0A, CHR 0x0A]
           @ ''Temperature forecast: '' @ toFixed2 (lastAvgTemp st) @ degreeC @ [CHR 0x0A]
           @ ''charging time: '' @ durationHours @ '' Std ('' @ durationMinutes @ '' Min)''
           @ [CHR 0x0A]
           @ ''start time: '' @ dynamicStartTimeStr @ [CHR 0x0A]
           @ ''end time: '' @ CHARGING_WINDOW_END cfg)"

text \<open>
  \<^verbatim>\<open>scheduleCharging\<close>. The calls of one synchronous stretch come in program order; a
  callback's calls come after the calls issued before the callback ran. The callbacks of
  the \<^verbatim>\<open>Schedule.Create\<close> calls are taken in the order of the calls.
\<close>

fun scheduleCharging :: "revision \<Rightarrow> config \<Rightarrow> env \<Rightarrow> state \<Rightarrow> state \<times> rpc list" where
  "scheduleCharging V42 cfg env st =
     (let windowEndSeconds = timeToSeconds (CHARGING_WINDOW_END cfg);
          windowStartSeconds = timeToSeconds (CHARGING_WINDOW_START cfg);
          (dynamicStartSeconds, duration) =
             scheduleCharging_window windowStartSeconds windowEndSeconds
               (nextChargingDurationSeconds st);
          dynamicStartTimeStr = secondsToTime dynamicStartSeconds;
          st' = st\<lparr>nextChargingDurationSeconds := duration\<rparr>
      in if IS_TEST_MODE cfg then (st', [])
         else
           (st',
            concat (map (\<lambda>id. Schedule_DeleteAll (Some id)
                            # (if duration > 0
                               then [Schedule_Create (Some id) (cronExpr42 dynamicStartTimeStr)
                                       id duration]
                               else []))
                     (SWITCH_IDS cfg))
            @ (if duration > 0
               then concat (map (\<lambda>(i, id).
                              if create_err env i = 0 then []
                              else sendTelegramNotification V42 cfg
                                     (''Failed to create schedule for Switch '' @ String_num id))
                            (enumerate 0 (SWITCH_IDS cfg)))
               else [])))"
| "scheduleCharging V50 cfg env st =
     (if IS_TEST_MODE cfg then (st, [])
      else
        (st,
         Schedule_List
         # (if list_err env \<noteq> 0
            then sendTelegramNotification V50 cfg ''ERROR: Failed to list schedules. Aborting.''
            else
              (if SEND_TELEGRAM_SCHEDULE_LIST cfg
               then sendTelegramNotification V50 cfg (scheduleListMsg (list_res env))
               else [])
              @ Schedule_DeleteAll None
              # (if delete_err env \<noteq> 0
                 then sendTelegramNotification V50 cfg
                        ''ERROR: Failed to delete schedules. Aborting.''
                 else if nextChargingDurationSeconds st \<le> 0
                 then (if SEND_TELEGRAM_NEW_SCHEDULE cfg
                       then sendTelegramNotification V50 cfg (noChargingMsg cfg st)
                       else [])
                 else
                   (let windowEndSeconds = timeToSeconds (CHARGING_WINDOW_END cfg);
                        dynamicStartSeconds =
                          dynamicStart50 windowEndSeconds (nextChargingDurationSeconds st);
                        dynamicStartTimeStr = secondsToTime dynamicStartSeconds
                    in map (\<lambda>switchId. Schedule_Create None (cronExpr50 dynamicStartSeconds)
                                         switchId (nextChargingDurationSeconds st))
                         (SWITCH_IDS cfg)
                       @ concat (map (\<lambda>(i, switchId).
                                   if create_err env i = 0
                                   then (if SEND_TELEGRAM_NEW_SCHEDULE cfg
                                         then sendTelegramNotification V50 cfg
                                                (newPlanMsg cfg st dynamicStartTimeStr)
                                         else [])
                                   else sendTelegramNotification V50 cfg
                                          (''ERROR: Failed to create schedule for Switch ''
                                             @ String_num switchId))
                                 (enumerate 0 (SWITCH_IDS cfg))))))))"

declare scheduleCharging.simps [simp del]

subsection \<open>The duration calculators\<close>

definition chargingHours :: "config \<Rightarrow> real \<Rightarrow> real" where
  \<comment> \<open>The value of \<^verbatim>\<open>hours\<close> in \<^verbatim>\<open>calculateChargingDuration\<close> (lines 117-119 and 334-336).\<close>
  "chargingHours cfg avgTemp =
     (let hours = (if avgTemp < START_TEMP cfg then (START_TEMP cfg - avgTemp) * SLOPE cfg else 0);
          hours = (if hours > MAX_RUNTIME_HOURS cfg then MAX_RUNTIME_HOURS cfg else hours);
          hours = (if hours < 0 then 0 else hours)
      in hours)"

fun calculateChargingDuration ::
  "revision \<Rightarrow> config \<Rightarrow> env \<Rightarrow> state \<Rightarrow> real \<Rightarrow> state \<times> rpc list" where
  "calculateChargingDuration V42 cfg env st avgTemp =
     scheduleCharging V42 cfg env
       (st\<lparr>nextChargingDurationSeconds := Math_round (chargingHours cfg avgTemp * 3600)\<rparr>)"
| "calculateChargingDuration V50 cfg env st avgTemp =
     scheduleCharging V50 cfg env
       (st\<lparr>lastAvgTemp := avgTemp,
           nextChargingDurationSeconds := Math_round (chargingHours cfg avgTemp * 3600)\<rparr>)"

definition fallbackHours :: "config \<Rightarrow> nat \<Rightarrow> real" where
  \<comment> \<open>The value of \<^verbatim>\<open>hours\<close> in \<^verbatim>\<open>calculateFallbackDuration\<close> (lines 128-130 and 344-346).\<close>
  "fallbackHours cfg m =
     (if m \<le> 3 then FALLBACK_HOURS_Q1 cfg
      else if m \<le> 6 then FALLBACK_HOURS_Q2 cfg
      else if m \<le> 9 then FALLBACK_HOURS_Q3 cfg
      else FALLBACK_HOURS_Q4 cfg)"

definition calculateFallbackDuration ::
  "revision \<Rightarrow> config \<Rightarrow> env \<Rightarrow> state \<Rightarrow> state \<times> rpc list" where
  "calculateFallbackDuration rv cfg env st =
     (let m = (case fallback_status env of None \<Rightarrow> 1 | Some res \<Rightarrow> month res);
          hours = fallbackHours cfg m;
          (st', calls) =
             scheduleCharging rv cfg env
               (st\<lparr>nextChargingDurationSeconds := Math_round (hours * 3600)\<rparr>)
      in (st', Sys_GetStatus # calls))"

subsection \<open>The decision cycle\<close>

fun unreachableMsg :: "revision \<Rightarrow> int \<Rightarrow> string" where
  "unreachableMsg V42 err_code = ''Weather API unreachable.''"
| "unreachableMsg V50 err_code = ''Weather API unreachable. Code: '' @ String_num err_code"

fun parseFailedMsg :: "revision \<Rightarrow> string \<Rightarrow> string" where
  "parseFailedMsg V42 e_message = ''Failed to parse weather data.''"
| "parseFailedMsg V50 e_message = ''Failed to parse weather data. Error: '' @ e_message"

definition weatherFailed ::
  "revision \<Rightarrow> config \<Rightarrow> env \<Rightarrow> state \<Rightarrow> string \<Rightarrow> state \<times> rpc list" where
  \<comment> \<open>\<^verbatim>\<open>sendTelegramNotification(msg); calculateFallbackDuration();\<close> of both failure
      branches.\<close>
  "weatherFailed rv cfg env st msg =
     (let (st', calls) = calculateFallbackDuration rv cfg env st
      in (st', sendTelegramNotification rv cfg msg @ calls))"

definition weatherCallback ::
  "revision \<Rightarrow> config \<Rightarrow> env \<Rightarrow> state \<Rightarrow> state \<times> rpc list" where
  \<comment> \<open>The callback of the forecast request (lines 97-111 and 314-328).\<close>
  "weatherCallback rv cfg env st =
     (case weather_res env of
        None \<Rightarrow> weatherFailed rv cfg env st (unreachableMsg rv (weather_err env))
      | Some res \<Rightarrow>
          if weather_err env \<noteq> 0 \<or> code res \<noteq> 200
          then weatherFailed rv cfg env st (unreachableMsg rv (weather_err env))
          else
            (case body res of
               Throws e_message \<Rightarrow> weatherFailed rv cfg env st (parseFailedMsg rv e_message)
             | Series temperature_2m \<Rightarrow>
                 let temps = take 24 (drop 24 temperature_2m)
                 in if length temps < 24
                    then weatherFailed rv cfg env st (parseFailedMsg rv ''Incomplete data'')
                    else calculateChargingDuration rv cfg env st
                           (foldl (+) 0 temps / real (length temps))))"

definition getWeatherAndCalculateDuration ::
  "revision \<Rightarrow> config \<Rightarrow> env \<Rightarrow> state \<Rightarrow> state \<times> rpc list" where
  "getWeatherAndCalculateDuration rv cfg env st =
     (let (st', calls) = weatherCallback rv cfg env st
      in (st', HTTP_GET (weatherUrl cfg) # calls))"

subsection \<open>The daily trigger of revision 5.0\<close>

definition startMsg :: string where
  \<comment> \<open>The text of line 453; its u umlaut in UTF-8.\<close>
  "startMsg = ''Starte die Erstellung des Ladeplans f'' @ [CHR 0xC3, CHR 0xBC] @ ''r morgen.''"

text \<open>
  \<^verbatim>\<open>dailyCheck\<close>. The cycle it starts only issues its first call before
  \<^verbatim>\<open>hasRunToday\<close> is set, and its callbacks run after \<^verbatim>\<open>dailyCheck\<close> has returned; they
  never touch \<^verbatim>\<open>hasRunToday\<close>, and \<^verbatim>\<open>dailyCheck\<close> touches nothing else, so the state after
  both is the cycle's with the flag as \<^verbatim>\<open>dailyCheck\<close> leaves it.
\<close>

definition dailyCheckCallback :: "config \<Rightarrow> env \<Rightarrow> state \<Rightarrow> state \<times> rpc list" where
  \<comment> \<open>The callback of the status query (lines 445-464).\<close>
  "dailyCheckCallback cfg env st =
     (case tick_status env of
        None \<Rightarrow> (st, [])
      | Some result \<Rightarrow>
          if time result = [] then (st, [])
          else
            let currentTime = time result;
                (st1, calls) =
                  (if currentTime = DATA_FETCH_TIME cfg \<and> \<not> hasRunToday st
                   then let (st0, calls) = getWeatherAndCalculateDuration V50 cfg env st
                        in (st0\<lparr>hasRunToday := True\<rparr>,
                            sendTelegramNotification V50 cfg startMsg @ calls)
                   else (st, []));
                st2 =
                  (if currentTime = ''00:01''
                   then (if hasRunToday st1 then st1\<lparr>hasRunToday := False\<rparr> else st1)
                   else st1)
            in (st2, calls))"

definition dailyCheck :: "config \<Rightarrow> env \<Rightarrow> state \<Rightarrow> state \<times> rpc list" where
  "dailyCheck cfg env st =
     (let (st', calls) = dailyCheckCallback cfg env st
      in (st', Sys_GetStatus # calls))"

text \<open>
  The repeating timer of production mode, \<^verbatim>\<open>Timer.set(60000, true, dailyCheck)\<close>, with the
  check that \<^verbatim>\<open>initializeTimers\<close> runs once at startup as the first tick: one call of
  \<^verbatim>\<open>dailyCheck\<close> per tick, each with the answers the device gives at that tick; a cycle
  has run all its callbacks before the next tick.
\<close>

fun timer_ticks :: "config \<Rightarrow> state \<Rightarrow> env list \<Rightarrow> state \<times> rpc list" where
  "timer_ticks cfg st [] = (st, [])"
| "timer_ticks cfg st (env # envs) =
     (let (st1, calls1) = dailyCheck cfg env st;
          (st2, calls2) = timer_ticks cfg st1 envs
      in (st2, calls1 @ calls2))"

definition cycles :: "config \<Rightarrow> rpc list \<Rightarrow> nat" where
  \<comment> \<open>The number of decision cycles in a run: each starts with the forecast request, and
      nothing else requests that URL.\<close>
  "cycles cfg calls = count_list calls (HTTP_GET (weatherUrl cfg))"

definition tick_time :: "env \<Rightarrow> string option" where
  \<comment> \<open>The time of day a tick carries; none when the status query gives no time.\<close>
  "tick_time env =
     (case tick_status env of
        None \<Rightarrow> None
      | Some result \<Rightarrow> if time result = [] then None else Some (time result))"

definition tick_times :: "env list \<Rightarrow> string list" where
  \<comment> \<open>The times of day the ticks of a run carry, in the order of the ticks.\<close>
  "tick_times envs =
     concat (map (\<lambda>env. case tick_time env of None \<Rightarrow> [] | Some t \<Rightarrow> [t]) envs)"

definition isScheduleCall :: "rpc \<Rightarrow> bool" where
  "isScheduleCall c =
     (case c of
        Schedule_List \<Rightarrow> True
      | Schedule_DeleteAll i \<Rightarrow> True
      | Schedule_Create i t s d \<Rightarrow> True
      | _ \<Rightarrow> False)"

definition isCreate :: "rpc \<Rightarrow> bool" where
  "isCreate c = (case c of Schedule_Create i t s d \<Rightarrow> True | _ \<Rightarrow> False)"

subsection \<open>Notions used to state the properties\<close>

definition timespecAt :: "bool \<Rightarrow> int \<Rightarrow> int \<Rightarrow> string" where
  \<comment> \<open>The timespec for second 0 of minute \<open>m\<close> of hour \<open>h\<close> of every day. Revision 4.2
      writes a number below 10 with a leading zero, revision 5.0 does not.\<close>
  "timespecAt padded h m =
     ''0 '' @ (if padded \<and> m < 10 then ''0'' else '''') @ String_num m @ '' ''
       @ (if padded \<and> h < 10 then ''0'' else '''') @ String_num h @ '' * * *''"

definition tableCode :: "(char \<times> string) list \<Rightarrow> char \<Rightarrow> string" where
  \<comment> \<open>What a table of replacements makes of one character: the text the table gives for
      it, or the character itself when the table has no entry for it.\<close>
  "tableCode tbl c = (case map_of tbl c of None \<Rightarrow> [c] | Some r \<Rightarrow> r)"

subsection \<open>Sample answers of the device\<close>

definition offline_tick :: "string \<Rightarrow> env" where
  \<comment> \<open>A tick at time \<open>t\<close> of a day in January: the forecast request fails with a network
      error, and every schedule call succeeds.\<close>
  "offline_tick t =
     \<lparr> weather_err = - 1,
       weather_res = None,
       tick_status = Some \<lparr> time = t, month = 1 \<rparr>,
       fallback_status = Some \<lparr> time = t, month = 1 \<rparr>,
       list_err = 0,
       list_res = None,
       delete_err = 0,
       create_err = (\<lambda>i. 0) \<rparr>"

section \<open>Properties\<close>

subsection \<open>Auxiliary facts\<close>

lemma js_rem_nonneg: "0 \<le> a \<Longrightarrow> 0 < b \<Longrightarrow> js_rem a b = a mod b"
  by (cases "a = 0") (simp_all add: js_rem_def)

lemma split_str_not_Nil: "split_str c s \<noteq> []"
  by (induction s) (auto split: list.splits)

lemma join_str_Cons_Cons: "ps \<noteq> [] \<Longrightarrow> join_str r (p # ps) = p @ r @ join_str r ps"
  by (cases ps) simp_all

lemma join_str_push: "join_str r ((x # p) # ps) = x # join_str r (p # ps)"
  by (cases ps) simp_all

lemma split_join_concat:
  "split_join c r s = concat (map (\<lambda>x. if x = c then r else [x]) s)"
proof (induction s)
  case Nil
  show ?case by (simp add: split_join_def)
next
  case (Cons x xs)
  obtain p ps where sp: "split_str c xs = p # ps"
    using split_str_not_Nil [of c xs] by (cases "split_str c xs") auto
  show ?case
  proof (cases "x = c")
    case True
    then show ?thesis
      using Cons.IH sp by (simp add: split_join_def)
  next
    case False
    then show ?thesis
      using Cons.IH sp by (simp add: split_join_def join_str_push)
  qed
qed

lemma set_split_join: "set (split_join c r s) \<subseteq> (set s - {c}) \<union> set r"
  by (induction s) (auto simp: split_join_concat)

lemma notin_split_join:
  "x \<notin> set r \<Longrightarrow> x = c \<or> x \<notin> set s \<Longrightarrow> x \<notin> set (split_join c r s)"
  using set_split_join [of c r s] by auto

lemma split_join_removes: "x \<notin> set r \<Longrightarrow> x \<notin> set (split_join x r s)"
  using set_split_join [of x r s] by auto

lemma split_join_avoids: "x \<notin> set r \<Longrightarrow> x \<notin> set s \<Longrightarrow> x \<notin> set (split_join c r s)"
  using set_split_join [of c r s] by auto

subsection \<open>The percent-encoding of a notification\<close>

lemma urlEncode_V50_free:
  "x \<in> {CHR '' '', CHR '':'', CHR ''.'', CHR '','', CHR 0x0A} \<Longrightarrow> x \<notin> set (urlEncode V50 s)"
proof -
  have "CHR '' '' \<notin> set (urlEncode V50 s)"
    unfolding urlEncode.simps Let_def by (intro split_join_removes split_join_avoids; simp)
  moreover have "CHR '':'' \<notin> set (urlEncode V50 s)"
    unfolding urlEncode.simps Let_def by (intro split_join_removes split_join_avoids; simp)
  moreover have "CHR ''.'' \<notin> set (urlEncode V50 s)"
    unfolding urlEncode.simps Let_def by (intro split_join_removes split_join_avoids; simp)
  moreover have "CHR '','' \<notin> set (urlEncode V50 s)"
    unfolding urlEncode.simps Let_def by (intro split_join_removes split_join_avoids; simp)
  moreover have "CHR 0x0A \<notin> set (urlEncode V50 s)"
    unfolding urlEncode.simps Let_def by (intro split_join_removes split_join_avoids; simp)
  ultimately show "x \<in> {CHR '' '', CHR '':'', CHR ''.'', CHR '','', CHR 0x0A} \<Longrightarrow> x \<notin> set (urlEncode V50 s)"
    by blast
qed

lemma urlEncode_V42_free:
  "x \<in> {CHR '' '', CHR '':'', CHR ''.'', CHR '',''} \<Longrightarrow> x \<notin> set (urlEncode V42 s)"
proof -
  have "CHR '' '' \<notin> set (urlEncode V42 s)"
    unfolding urlEncode.simps Let_def by (intro split_join_removes split_join_avoids; simp)
  moreover have "CHR '':'' \<notin> set (urlEncode V42 s)"
    unfolding urlEncode.simps Let_def by (intro split_join_removes split_join_avoids; simp)
  moreover have "CHR ''.'' \<notin> set (urlEncode V42 s)"
    unfolding urlEncode.simps Let_def by (intro split_join_removes split_join_avoids; simp)
  moreover have "CHR '','' \<notin> set (urlEncode V42 s)"
    unfolding urlEncode.simps Let_def by (intro split_join_removes split_join_avoids; simp)
  ultimately show "x \<in> {CHR '' '', CHR '':'', CHR ''.'', CHR '',''} \<Longrightarrow> x \<notin> set (urlEncode V42 s)"
    by blast
qed

lemma tableCode_Nil: "concat (map (tableCode []) s) = s"
  by (induction s) (simp_all add: tableCode_def)

lemma tableCode_step:
  assumes "c \<notin> fst ` set tbl" and "\<And>k v. (k, v) \<in> set tbl \<Longrightarrow> c \<notin> set v"
  shows "concat (map (\<lambda>y. if y = c then r else [y]) (tableCode tbl x)) = tableCode (tbl @ [(c, r)]) x"
proof (cases "map_of tbl x")
  case None
  then show ?thesis
    by (simp add: tableCode_def map_add_def)
next
  case (Some v)
  then have "(x, v) \<in> set tbl"
    by (rule map_of_SomeD)
  then have "c \<notin> set v"
    by (rule assms(2))
  then have "concat (map (\<lambda>y. if y = c then r else [y]) v) = v"
    by (induction v) auto
  then show ?thesis
    using Some by (simp add: tableCode_def map_add_def)
qed

lemma split_join_table:
  assumes "c \<notin> fst ` set tbl" and "\<And>k v. (k, v) \<in> set tbl \<Longrightarrow> c \<notin> set v"
  shows "split_join c r (concat (map (tableCode tbl) s))
           = concat (map (tableCode (tbl @ [(c, r)])) s)"
proof -
  have "split_join c r (concat (map (tableCode tbl) s))
          = concat (map (\<lambda>x. concat (map (\<lambda>y. if y = c then r else [y]) (tableCode tbl x))) s)"
    by (induction s) (simp_all add: split_join_concat)
  then show ?thesis
    using assms by (simp add: tableCode_step)
qed

lemma urlEncode_V50_pointwise:
  "urlEncode V50 s =
     concat (map (tableCode [(CHR '' '', ''%20''), (CHR '':'', ''%3A''), (CHR ''.'', ''%2E''),
                             (CHR '','', ''%2C''), (CHR 0x0A, ''%0A'')]) s)"
proof -
  have "urlEncode V50 s =
     split_join CHR 0x0A ''%0A'' (split_join CHR '','' ''%2C'' (split_join CHR ''.'' ''%2E''
       (split_join CHR '':'' ''%3A'' (split_join CHR '' '' ''%20''
         (concat (map (tableCode []) s))))))"
    by (simp add: tableCode_Nil Let_def)
  also have "\<dots> = concat (map (tableCode [(CHR '' '', ''%20''), (CHR '':'', ''%3A''), (CHR ''.'', ''%2E''),
                             (CHR '','', ''%2C''), (CHR 0x0A, ''%0A'')]) s)"
    by (subst split_join_table; (simp; fail)?; auto)+
  finally show ?thesis .
qed

lemma urlEncode_V42_pointwise:
  "urlEncode V42 s =
     concat (map (tableCode [(CHR ''%'', ''%25''), (CHR '' '', ''%20''), (CHR ''&'', ''%26''),
                             (CHR ''+'', ''%2B''), (CHR ''?'', ''%3F''), (CHR ''='', ''%3D''),
                             (CHR ''#'', ''%23''), (CHR ''/'', ''%2F''), (CHR '':'', ''%3A''),
                             (CHR '';'', ''%3B''), (CHR ''<'', ''%3C''), (CHR ''>'', ''%3E''),
                             (CHR 0x22, ''%22''), (CHR 0x27, ''%27''), (CHR ''.'', ''%2E''),
                             (CHR '','', ''%2C'')]) s)"
proof -
  have "urlEncode V42 s =
     split_join CHR '','' ''%2C'' (split_join CHR ''.'' ''%2E'' (split_join CHR 0x27 ''%27''
       (split_join CHR 0x22 ''%22'' (split_join CHR ''>'' ''%3E'' (split_join CHR ''<'' ''%3C''
         (split_join CHR '';'' ''%3B'' (split_join CHR '':'' ''%3A'' (split_join CHR ''/'' ''%2F''
           (split_join CHR ''#'' ''%23'' (split_join CHR ''='' ''%3D'' (split_join CHR ''?'' ''%3F''
             (split_join CHR ''+'' ''%2B'' (split_join CHR ''&'' ''%26''
               (split_join CHR '' '' ''%20'' (split_join CHR ''%'' ''%25''
                 (concat (map (tableCode []) s)))))))))))))))))"
    by (simp add: tableCode_Nil Let_def)
  also have "\<dots> = concat (map (tableCode [(CHR ''%'', ''%25''), (CHR '' '', ''%20''), (CHR ''&'', ''%26''),
                             (CHR ''+'', ''%2B''), (CHR ''?'', ''%3F''), (CHR ''='', ''%3D''),
                             (CHR ''#'', ''%23''), (CHR ''/'', ''%2F''), (CHR '':'', ''%3A''),
                             (CHR '';'', ''%3B''), (CHR ''<'', ''%3C''), (CHR ''>'', ''%3E''),
                             (CHR 0x22, ''%22''), (CHR 0x27, ''%27''), (CHR ''.'', ''%2E''),
                             (CHR '','', ''%2C'')]) s)"
    by (subst split_join_table; (simp; fail)?; auto)+
  finally show ?thesis .
qed

text \<open>
  Claim C9, with the newline for revision 5.0 only. The text that
  \<^verbatim>\<open>sendTelegramNotification\<close> embeds into the query string is \<^verbatim>\<open>urlEncode\<close> of the message.
  In both revisions \<^verbatim>\<open>urlEncode\<close> works character by character: a character that its
  table of replacements holds is replaced, in place, by the percent code the table gives
  for it, and every other character stays as it is. The table of revision 5.0 holds the
  space, the colon, the period, the comma and the newline, so the encoded text of every
  message holds none of the five. The table of revision 4.2 holds the space, the colon,
  the period, the comma and twelve more reserved characters, but no newline: its encoded
  text holds no space, colon, period or comma.
\<close>

theorem urlEncode_percent_encodes:
  "urlEncode V50 s =
     concat (map (tableCode [(CHR '' '', ''%20''), (CHR '':'', ''%3A''), (CHR ''.'', ''%2E''),
                             (CHR '','', ''%2C''), (CHR 0x0A, ''%0A'')]) s)
   \<and> set (urlEncode V50 s) \<inter> {CHR '' '', CHR '':'', CHR ''.'', CHR '','', CHR 0x0A} = {}
   \<and> urlEncode V42 s =
     concat (map (tableCode [(CHR ''%'', ''%25''), (CHR '' '', ''%20''), (CHR ''&'', ''%26''),
                             (CHR ''+'', ''%2B''), (CHR ''?'', ''%3F''), (CHR ''='', ''%3D''),
                             (CHR ''#'', ''%23''), (CHR ''/'', ''%2F''), (CHR '':'', ''%3A''),
                             (CHR '';'', ''%3B''), (CHR ''<'', ''%3C''), (CHR ''>'', ''%3E''),
                             (CHR 0x22, ''%22''), (CHR 0x27, ''%27''), (CHR ''.'', ''%2E''),
                             (CHR '','', ''%2C'')]) s)
   \<and> set (urlEncode V42 s) \<inter> {CHR '' '', CHR '':'', CHR ''.'', CHR '',''} = {}"
proof (intro conjI)
  show "urlEncode V50 s =
     concat (map (tableCode [(CHR '' '', ''%20''), (CHR '':'', ''%3A''), (CHR ''.'', ''%2E''),
                             (CHR '','', ''%2C''), (CHR 0x0A, ''%0A'')]) s)"
    by (rule urlEncode_V50_pointwise)
  show "set (urlEncode V50 s) \<inter> {CHR '' '', CHR '':'', CHR ''.'', CHR '','', CHR 0x0A} = {}"
    using urlEncode_V50_free [of _ s] by blast
  show "urlEncode V42 s =
     concat (map (tableCode [(CHR ''%'', ''%25''), (CHR '' '', ''%20''), (CHR ''&'', ''%26''),
                             (CHR ''+'', ''%2B''), (CHR ''?'', ''%3F''), (CHR ''='', ''%3D''),
                             (CHR ''#'', ''%23''), (CHR ''/'', ''%2F''), (CHR '':'', ''%3A''),
                             (CHR '';'', ''%3B''), (CHR ''<'', ''%3C''), (CHR ''>'', ''%3E''),
                             (CHR 0x22, ''%22''), (CHR 0x27, ''%27''), (CHR ''.'', ''%2E''),
                             (CHR '','', ''%2C'')]) s)"
    by (rule urlEncode_V42_pointwise)
  show "set (urlEncode V42 s) \<inter> {CHR '' '', CHR '':'', CHR ''.'', CHR '',''} = {}"
    using urlEncode_V42_free [of _ s] by blast
qed

theorem urlEncode_percent_encodes_witness:
  "urlEncode V50 (''Shelly Heater: No charging required.'' @ [CHR 0x0A, CHR 0x0A] @ ''Temperature forecast: 16.25'')
     = ''Shelly%20Heater%3A%20No%20charging%20required%2E%0A%0ATemperature%20forecast%3A%2016%2E25''
   \<and> urlEncode V42 ''Shelly Heater: Weather API unreachable.''
     = ''Shelly%20Heater%3A%20Weather%20API%20unreachable%2E''"
proof (intro conjI)
  show "urlEncode V50 (''Shelly Heater: No charging required.'' @ [CHR 0x0A, CHR 0x0A] @ ''Temperature forecast: 16.25'')
     = ''Shelly%20Heater%3A%20No%20charging%20required%2E%0A%0ATemperature%20forecast%3A%2016%2E25''"
    by (subst urlEncode_percent_encodes [THEN conjunct1]) (simp add: tableCode_def)
  show "urlEncode V42 ''Shelly Heater: Weather API unreachable.''
     = ''Shelly%20Heater%3A%20Weather%20API%20unreachable%2E''"
    by (subst urlEncode_percent_encodes [THEN conjunct2, THEN conjunct2, THEN conjunct1])
      (simp add: tableCode_def)
qed

text \<open>
  Revision 4.2 leaves a newline of the message in place; none of the messages it builds
  itself holds one.
\<close>

theorem urlEncode_V42_keeps_newline:
  "urlEncode V42 (''Shelly Heater: No charging required.'' @ [CHR 0x0A] @ ''Temperature forecast: 16'')
     = ''Shelly%20Heater%3A%20No%20charging%20required%2E'' @ [CHR 0x0A] @ ''Temperature%20forecast%3A%2016''
   \<and> CHR 0x0A \<in> set (urlEncode V42
         (''Shelly Heater: No charging required.'' @ [CHR 0x0A] @ ''Temperature forecast: 16''))"
proof -
  have "urlEncode V42 (''Shelly Heater: No charging required.'' @ [CHR 0x0A] @ ''Temperature forecast: 16'')
     = ''Shelly%20Heater%3A%20No%20charging%20required%2E'' @ [CHR 0x0A] @ ''Temperature%20forecast%3A%2016''"
    by (subst urlEncode_V42_pointwise) (simp add: tableCode_def)
  then show ?thesis by simp
qed

subsection \<open>The duration calculators\<close>

lemma scheduleCharging_V50_state: "fst (scheduleCharging V50 cfg env st) = st"
  by (simp add: scheduleCharging.simps)

lemma calculateFallbackDuration_unfold:
  "calculateFallbackDuration rv cfg env st =
     (fst (scheduleCharging rv cfg env
             (st\<lparr>nextChargingDurationSeconds :=
                   Math_round (fallbackHours cfg
                     (case fallback_status env of None \<Rightarrow> 1 | Some res \<Rightarrow> month res) * 3600)\<rparr>)),
      Sys_GetStatus
      # snd (scheduleCharging rv cfg env
               (st\<lparr>nextChargingDurationSeconds :=
                     Math_round (fallbackHours cfg
                       (case fallback_status env of None \<Rightarrow> 1 | Some res \<Rightarrow> month res) * 3600)\<rparr>)))"
  by (simp add: calculateFallbackDuration_def Let_def case_prod_beta)

text \<open>
  Claim C6. The hours that \<^verbatim>\<open>calculateChargingDuration\<close> computes are 0 when the average
  temperature is at or above \<^verbatim>\<open>START_TEMP\<close>; below it, with a slope and a maximum runtime
  that are not negative, they are the smaller of \<^verbatim>\<open>MAX_RUNTIME_HOURS\<close> and
  \<^verbatim>\<open>(START_TEMP - avgTemp) * SLOPE\<close>. The hours, and the seconds stored from them, are
  never negative.
\<close>

theorem chargingHours_curve:
  "(START_TEMP cfg \<le> avgTemp \<longrightarrow> chargingHours cfg avgTemp = 0)
   \<and> (avgTemp < START_TEMP cfg \<and> 0 \<le> SLOPE cfg \<and> 0 \<le> MAX_RUNTIME_HOURS cfg \<longrightarrow>
        chargingHours cfg avgTemp = min (MAX_RUNTIME_HOURS cfg) ((START_TEMP cfg - avgTemp) * SLOPE cfg))
   \<and> 0 \<le> chargingHours cfg avgTemp
   \<and> 0 \<le> Math_round (chargingHours cfg avgTemp * 3600)
   \<and> nextChargingDurationSeconds (fst (calculateChargingDuration V50 cfg env st avgTemp))
        = Math_round (chargingHours cfg avgTemp * 3600)"
proof -
  have warm: "chargingHours cfg avgTemp = 0" if "START_TEMP cfg \<le> avgTemp"
    using that by (simp add: chargingHours_def Let_def)
  have cold: "chargingHours cfg avgTemp = min (MAX_RUNTIME_HOURS cfg) ((START_TEMP cfg - avgTemp) * SLOPE cfg)"
    if "avgTemp < START_TEMP cfg" "0 \<le> SLOPE cfg" "0 \<le> MAX_RUNTIME_HOURS cfg"
  proof -
    define h where "h = (START_TEMP cfg - avgTemp) * SLOPE cfg"
    have "0 \<le> h"
      using that by (simp add: h_def)
    moreover have "chargingHours cfg avgTemp
        = (let k = (if h > MAX_RUNTIME_HOURS cfg then MAX_RUNTIME_HOURS cfg else h)
           in if k < 0 then 0 else k)"
      using that(1) by (simp add: chargingHours_def h_def)
    ultimately show ?thesis
      using that(3) unfolding h_def [symmetric] by (simp add: Let_def min_def)
  qed
  have nonneg: "0 \<le> chargingHours cfg avgTemp"
    by (simp add: chargingHours_def Let_def)
  have "0 \<le> chargingHours cfg avgTemp * 3600 + 1 / 2"
    using nonneg by simp
  then have secs: "0 \<le> Math_round (chargingHours cfg avgTemp * 3600)"
    by (simp add: Math_round_def)
  show ?thesis
    using warm cold nonneg secs by (simp add: scheduleCharging_V50_state)
qed

theorem chargingHours_curve_witness:
  "chargingHours (CONFIG V50) 20 = 0
   \<and> chargingHours (CONFIG V50) 5 = 5
   \<and> chargingHours (CONFIG V50) (- 10) = 8
   \<and> Math_round (chargingHours (CONFIG V50) 5 * 3600) = 18000"
proof -
  have "chargingHours (CONFIG V50) 20 = 0"
    using chargingHours_curve [of "CONFIG V50" 20] by (simp add: CONFIG_def)
  moreover have "chargingHours (CONFIG V50) 5 = 5"
    using chargingHours_curve [of "CONFIG V50" 5] by (simp add: CONFIG_def)
  moreover have "chargingHours (CONFIG V50) (- 10) = 8"
    using chargingHours_curve [of "CONFIG V50" "- 10"] by (simp add: CONFIG_def)
  ultimately show ?thesis by (simp add: Math_round_def)
qed

text \<open>
  Claim C7. The fallback hours are the constant of the quarter of the month: months 1 to 3
  give Q1, 4 to 6 give Q2, 7 to 9 give Q3 and 10 to 12 give Q4; the seconds stored by
  \<^verbatim>\<open>calculateFallbackDuration\<close> are these hours, rounded.
\<close>

theorem fallbackHours_quarters:
  "(m \<in> {1, 2, 3} \<longrightarrow> fallbackHours cfg m = FALLBACK_HOURS_Q1 cfg)
   \<and> (m \<in> {4, 5, 6} \<longrightarrow> fallbackHours cfg m = FALLBACK_HOURS_Q2 cfg)
   \<and> (m \<in> {7, 8, 9} \<longrightarrow> fallbackHours cfg m = FALLBACK_HOURS_Q3 cfg)
   \<and> (m \<in> {10, 11, 12} \<longrightarrow> fallbackHours cfg m = FALLBACK_HOURS_Q4 cfg)
   \<and> (fallback_status env = Some res \<and> month res = m \<longrightarrow>
        nextChargingDurationSeconds (fst (calculateFallbackDuration V50 cfg env st))
          = Math_round (fallbackHours cfg m * 3600))"
proof -
  have "nextChargingDurationSeconds (fst (calculateFallbackDuration V50 cfg env st))
          = Math_round (fallbackHours cfg m * 3600)"
    if "fallback_status env = Some res" "month res = m"
    using that by (simp add: calculateFallbackDuration_unfold scheduleCharging_V50_state)
  then show ?thesis
    by (auto simp: fallbackHours_def)
qed

theorem fallbackHours_quarters_witness:
  "map (fallbackHours (CONFIG V50)) [1, 2, 3, 4, 5, 6, 7, 8, 9, 10, 11, 12]
     = [6, 6, 6, 2, 2, 2, 0, 0, 0, 5, 5, 5]"
  using fallbackHours_quarters [of 1 "CONFIG V50"] fallbackHours_quarters [of 2 "CONFIG V50"]
    fallbackHours_quarters [of 3 "CONFIG V50"] fallbackHours_quarters [of 4 "CONFIG V50"]
    fallbackHours_quarters [of 5 "CONFIG V50"] fallbackHours_quarters [of 6 "CONFIG V50"]
    fallbackHours_quarters [of 7 "CONFIG V50"] fallbackHours_quarters [of 8 "CONFIG V50"]
    fallbackHours_quarters [of 9 "CONFIG V50"] fallbackHours_quarters [of 10 "CONFIG V50"]
    fallbackHours_quarters [of 11 "CONFIG V50"] fallbackHours_quarters [of 12 "CONFIG V50"]
  by (simp add: CONFIG_def)

subsection \<open>The timespec of a timed action\<close>

lemma digits_of_digits: "set (digits_of n) \<subseteq> set ''0123456789''"
proof (induction n rule: digits_of.induct)
  case (1 n)
  have digit: "''0123456789'' ! k \<in> set ''0123456789''" if "k < 10" for k
    using that by (intro nth_mem) simp
  show ?case
  proof (cases "n < 10")
    case True
    then show ?thesis
      using digit [of n] by (subst digits_of.simps) simp
  next
    case False
    then show ?thesis
      using "1.IH" digit [of "n mod 10"] by (subst digits_of.simps) simp
  qed
qed

lemma String_num_no_colon: "CHR '':'' \<notin> set (String_num x)"
  using digits_of_digits [of "nat x"] digits_of_digits [of "nat (- x)"]
  by (auto simp: String_num_def)

lemma split_str_none: "c \<notin> set a \<Longrightarrow> split_str c a = [a]"
  by (induction a) auto

lemma split_str_at: "c \<notin> set a \<Longrightarrow> split_str c (a @ c # b) = a # split_str c b"
  by (induction a) auto

lemma cronExpr42_timespecAt:
  assumes "0 \<le> s"
  shows "cronExpr42 (secondsToTime (Some s)) = timespecAt True (s div 3600) (s mod 3600 div 60)"
proof -
  define hh where "hh = (if s div 3600 < 10 then ''0'' else []) @ String_num (s div 3600)"
  define mm where "mm = (if s mod 3600 div 60 < 10 then ''0'' else []) @ String_num (s mod 3600 div 60)"
  have time: "secondsToTime (Some s) = hh @ CHR '':'' # mm"
    using assms by (simp add: secondsToTime_def js_rem_nonneg hh_def mm_def Let_def)
  have "CHR '':'' \<notin> set hh" "CHR '':'' \<notin> set mm"
    using String_num_no_colon by (auto simp: hh_def mm_def)
  then have "split_str CHR '':'' (secondsToTime (Some s)) = [hh, mm]"
    unfolding time by (simp add: split_str_at split_str_none)
  then show ?thesis
    by (simp add: cronExpr42_def index_str_def timespecAt_def hh_def mm_def)
qed




lemma timeToSeconds_2200: "timeToSeconds ''22:00'' = Some 79200"
  by (simp add: timeToSeconds_def parseInt_def isWhiteSpace_def digitValue_def index_str_def)

lemma timeToSeconds_0600: "timeToSeconds ''06:00'' = Some 21600"
  by (simp add: timeToSeconds_def parseInt_def isWhiteSpace_def digitValue_def index_str_def)


subsection \<open>The calls of the scheduler\<close>

lemma isScheduleCall_notification [simp]:
  "filter isScheduleCall (sendTelegramNotification rv cfg msg) = []"
  by (simp add: sendTelegramNotification_def isScheduleCall_def)

lemma isCreate_notification [simp]:
  "filter isCreate (sendTelegramNotification rv cfg msg) = []"
  by (simp add: sendTelegramNotification_def isCreate_def)

lemma filter_concat_Nil:
  "(\<And>x. x \<in> set xs \<Longrightarrow> filter P (f x) = []) \<Longrightarrow> filter P (concat (map f xs)) = []"
  by (induction xs) simp_all

lemma filter_isCreate_creates:
  "filter isCreate (map (\<lambda>switchId. Schedule_Create i t switchId d) ids)
     = map (\<lambda>switchId. Schedule_Create i t switchId d) ids"
  by (induction ids) (simp_all add: isCreate_def)

lemma create_reports_no_create:
  "filter isCreate
     (concat (map (\<lambda>(i, switchId).
                if create_err env i = 0
                then (if SEND_TELEGRAM_NEW_SCHEDULE cfg
                      then sendTelegramNotification V50 cfg m1 else [])
                else sendTelegramNotification V50 cfg (m2 switchId)) xs)) = []"
  by (rule filter_concat_Nil) (simp split: prod.splits)

lemma scheduleCharging_V50_list_failed:
  assumes "\<not> IS_TEST_MODE cfg" "list_err env \<noteq> 0"
  shows "filter isScheduleCall (snd (scheduleCharging V50 cfg env st)) = [Schedule_List]"
  using assms by (simp add: scheduleCharging.simps isScheduleCall_def)

lemma scheduleCharging_V50_delete_failed:
  assumes "\<not> IS_TEST_MODE cfg" "list_err env = 0" "delete_err env \<noteq> 0"
  shows "filter isScheduleCall (snd (scheduleCharging V50 cfg env st))
           = [Schedule_List, Schedule_DeleteAll None]"
  using assms by (simp add: scheduleCharging.simps isScheduleCall_def)

lemma scheduleCharging_V50_creates:
  assumes "\<not> IS_TEST_MODE cfg" "list_err env = 0" "delete_err env = 0"
    and "0 < nextChargingDurationSeconds st"
  shows "filter isCreate (snd (scheduleCharging V50 cfg env st))
           = map (\<lambda>switchId.
                    Schedule_Create None
                      (cronExpr50 (dynamicStart50 (timeToSeconds (CHARGING_WINDOW_END cfg))
                                    (nextChargingDurationSeconds st)))
                      switchId (nextChargingDurationSeconds st))
               (SWITCH_IDS cfg)"
  using assms
  by (simp add: scheduleCharging.simps Let_def filter_isCreate_creates create_reports_no_create
      isCreate_def)


lemma scheduleCharging_V42_issued:
  assumes "\<not> IS_TEST_MODE cfg"
    and "scheduleCharging_window (timeToSeconds (CHARGING_WINDOW_START cfg))
           (timeToSeconds (CHARGING_WINDOW_END cfg)) (nextChargingDurationSeconds st) = (dyn, dur)"
    and "0 < dur"
  shows "filter isCreate (snd (scheduleCharging V42 cfg env st))
           = map (\<lambda>id. Schedule_Create (Some id) (cronExpr42 (secondsToTime dyn)) id dur)
               (SWITCH_IDS cfg)"
proof -
  have reports: "filter isCreate
     (concat (map (\<lambda>(i, id). if create_err env i = 0 then []
                             else sendTelegramNotification V42 cfg (m id)) xs)) = []" for m xs
    by (rule filter_concat_Nil) (simp split: prod.splits)
  have calls: "filter isCreate
       (concat (map (\<lambda>id. Schedule_DeleteAll (Some id) # [Schedule_Create (Some id) t id d]) ids))
       = map (\<lambda>id. Schedule_Create (Some id) t id d) ids" for t d ids
    by (induction ids) (simp_all add: isCreate_def)
  show ?thesis
    using assms by (simp add: scheduleCharging.simps Let_def reports calls)
qed


lemma offline_tick_forecast [simp]:
  "weather_err (offline_tick t) = - 1" "weather_res (offline_tick t) = None"
  by (simp_all add: offline_tick_def)

subsection \<open>The backward scheduler\<close>

lemma js_rem_day: "0 \<le> x \<Longrightarrow> x < 86400 \<Longrightarrow> js_rem x 86400 = x"
  by (simp add: js_rem_nonneg)

lemma js_rem_next_day: "0 \<le> x \<Longrightarrow> x < 86400 \<Longrightarrow> js_rem (x + 86400) 86400 = x"
  by (simp add: js_rem_nonneg)

lemma mod_next_day: "0 \<le> x \<Longrightarrow> x < 86400 \<Longrightarrow> (x + 86400) mod 86400 = (x::int)"
  by simp

lemma window_anchor:
  assumes "0 \<le> ws" "ws < 86400"
  shows "js_rem (we - windowDurationSeconds ws we + 24 * 3600) (24 * 3600) = ws"
proof (cases "ws > we")
  case True
  then have "we - windowDurationSeconds ws we + 24 * 3600 = ws"
    by (simp add: windowDurationSeconds_def)
  then show ?thesis using assms by (simp add: js_rem_day)
next
  case False
  then have "we - windowDurationSeconds ws we + 24 * 3600 = ws + 86400"
    by (simp add: windowDurationSeconds_def)
  then show ?thesis using assms by (simp add: js_rem_next_day)
qed

lemma window_capped:
  "windowDurationSeconds ws we < required \<Longrightarrow>
     snd (scheduleCharging_window (Some ws) (Some we) required) = windowDurationSeconds ws we"
  by (simp add: scheduleCharging_window.simps Let_def)

lemma window_capped_start:
  assumes "windowDurationSeconds ws we < required" "0 \<le> ws" "ws < 24 * 3600"
  shows "fst (scheduleCharging_window (Some ws) (Some we) required) = Some ws"
proof -
  have "js_rem (we - windowDurationSeconds ws we + 24 * 3600) (24 * 3600) = ws"
    using assms(2,3) by (intro window_anchor) simp_all
  then show ?thesis
    using assms(1) by (simp add: scheduleCharging_window.simps Let_def)
qed

lemma scheduleCharging_V42_duration:
  "nextChargingDurationSeconds (fst (scheduleCharging V42 cfg env st))
     = snd (scheduleCharging_window (timeToSeconds (CHARGING_WINDOW_START cfg))
              (timeToSeconds (CHARGING_WINDOW_END cfg)) (nextChargingDurationSeconds st))"
  by (simp add: scheduleCharging.simps Let_def split: prod.splits)

text \<open>
  In the backward scheduler of revision 4.2 a required duration above the span of the
  window always comes out as the span, and for a window start within the day the start is
  the start of the window; \<^verbatim>\<open>scheduleCharging\<close> stores that duration and, in production
  mode, creates the timed action of every switch for the span, from the start of the
  window. For the window 22:00-06:00 and 10 hours this gives 8 hours from 22:00.
\<close>

lemma scheduleCharging_window_clamps:
  assumes "windowDurationSeconds ws we < required"
  shows "snd (scheduleCharging_window (Some ws) (Some we) required) = windowDurationSeconds ws we
    \<and> (0 \<le> ws \<and> ws < 24 * 3600 \<longrightarrow>
         fst (scheduleCharging_window (Some ws) (Some we) required) = Some ws)
    \<and> (timeToSeconds (CHARGING_WINDOW_START cfg) = Some ws
         \<and> timeToSeconds (CHARGING_WINDOW_END cfg) = Some we
         \<and> nextChargingDurationSeconds st = required \<longrightarrow>
         nextChargingDurationSeconds (fst (scheduleCharging V42 cfg env st))
           = windowDurationSeconds ws we)
    \<and> (timeToSeconds (CHARGING_WINDOW_START cfg) = Some ws
         \<and> timeToSeconds (CHARGING_WINDOW_END cfg) = Some we
         \<and> nextChargingDurationSeconds st = required
         \<and> 0 \<le> ws \<and> ws < 24 * 3600 \<and> 0 < windowDurationSeconds ws we
         \<and> \<not> IS_TEST_MODE cfg \<longrightarrow>
         filter isCreate (snd (scheduleCharging V42 cfg env st))
           = map (\<lambda>id. Schedule_Create (Some id)
                          (timespecAt True (ws div 3600) (ws mod 3600 div 60)) id
                          (windowDurationSeconds ws we))
               (SWITCH_IDS cfg))"
proof -
  have capped: "snd (scheduleCharging_window (Some ws) (Some we) required) = windowDurationSeconds ws we"
    using assms by (rule window_capped)
  have start: "fst (scheduleCharging_window (Some ws) (Some we) required) = Some ws"
    if "0 \<le> ws" "ws < 24 * 3600"
    using assms that by (rule window_capped_start)
  have stored: "nextChargingDurationSeconds (fst (scheduleCharging V42 cfg env st))
           = windowDurationSeconds ws we"
    if "timeToSeconds (CHARGING_WINDOW_START cfg) = Some ws"
      "timeToSeconds (CHARGING_WINDOW_END cfg) = Some we"
      "nextChargingDurationSeconds st = required"
    using that capped by (simp add: scheduleCharging_V42_duration)
  have issued: "filter isCreate (snd (scheduleCharging V42 cfg env st))
           = map (\<lambda>id. Schedule_Create (Some id)
                          (timespecAt True (ws div 3600) (ws mod 3600 div 60)) id
                          (windowDurationSeconds ws we))
               (SWITCH_IDS cfg)"
    if "timeToSeconds (CHARGING_WINDOW_START cfg) = Some ws"
      "timeToSeconds (CHARGING_WINDOW_END cfg) = Some we"
      "nextChargingDurationSeconds st = required"
      "0 \<le> ws" "ws < 24 * 3600" "0 < windowDurationSeconds ws we" "\<not> IS_TEST_MODE cfg"
  proof -
    have "scheduleCharging_window (timeToSeconds (CHARGING_WINDOW_START cfg))
           (timeToSeconds (CHARGING_WINDOW_END cfg)) (nextChargingDurationSeconds st)
          = (Some ws, windowDurationSeconds ws we)"
      using that(1-3) capped start [OF that(4,5)] by (intro prod_eqI) simp_all
    then have "filter isCreate (snd (scheduleCharging V42 cfg env st))
           = map (\<lambda>id. Schedule_Create (Some id) (cronExpr42 (secondsToTime (Some ws))) id
                          (windowDurationSeconds ws we))
               (SWITCH_IDS cfg)"
      using that(6,7) by (intro scheduleCharging_V42_issued)
    then show ?thesis
      using that(4) by (simp add: cronExpr42_timespecAt)
  qed
  show ?thesis
    using capped start stored issued by blast
qed

lemma scheduleCharging_window_clamps_witness:
  "timeToSeconds ''22:00'' = Some 79200 \<and> timeToSeconds ''06:00'' = Some 21600
   \<and> windowDurationSeconds 79200 21600 = 8 * 3600
   \<and> windowDurationSeconds 79200 21600 < 10 * 3600
   \<and> scheduleCharging_window (Some 79200) (Some 21600) (10 * 3600) = (Some 79200, 8 * 3600)
   \<and> secondsToTime (Some 79200) = ''22:00''
   \<and> nextChargingDurationSeconds
        (fst (scheduleCharging V42 ((CONFIG V42)\<lparr>IS_TEST_MODE := False\<rparr>) (offline_tick ''19:00'')
               (initial_state\<lparr>nextChargingDurationSeconds := 10 * 3600\<rparr>))) = 8 * 3600
   \<and> filter isCreate
        (snd (scheduleCharging V42 ((CONFIG V42)\<lparr>IS_TEST_MODE := False\<rparr>) (offline_tick ''19:00'')
               (initial_state\<lparr>nextChargingDurationSeconds := 10 * 3600\<rparr>)))
       = [Schedule_Create (Some 0) ''0 00 22 * * *'' 0 (8 * 3600)]"
proof -
  have span: "windowDurationSeconds 79200 21600 = 8 * 3600"
    by (simp add: windowDurationSeconds_def)
  have exceeds: "windowDurationSeconds 79200 21600 < 10 * 3600"
    by (simp add: span)
  note clamp = scheduleCharging_window_clamps [OF exceeds, of "(CONFIG V42)\<lparr>IS_TEST_MODE := False\<rparr>"
      "initial_state\<lparr>nextChargingDurationSeconds := 10 * 3600\<rparr>" "offline_tick ''19:00''"]
  have cfg: "CHARGING_WINDOW_START ((CONFIG V42)\<lparr>IS_TEST_MODE := False\<rparr>) = ''22:00''"
    "CHARGING_WINDOW_END ((CONFIG V42)\<lparr>IS_TEST_MODE := False\<rparr>) = ''06:00''"
    "SWITCH_IDS ((CONFIG V42)\<lparr>IS_TEST_MODE := False\<rparr>) = [0]"
    by (simp_all add: CONFIG_def)
  have "scheduleCharging_window (Some 79200) (Some 21600) (10 * 3600) = (Some 79200, 8 * 3600)"
    using clamp span by (intro prod_eqI) simp_all
  moreover have "secondsToTime (Some 79200) = ''22:00''"
    by (simp add: secondsToTime_def js_rem_def String_num_def digits_of.simps)
  moreover have "nextChargingDurationSeconds
        (fst (scheduleCharging V42 ((CONFIG V42)\<lparr>IS_TEST_MODE := False\<rparr>) (offline_tick ''19:00'')
               (initial_state\<lparr>nextChargingDurationSeconds := 10 * 3600\<rparr>))) = 8 * 3600"
    using clamp span timeToSeconds_2200 timeToSeconds_0600 cfg by simp
  moreover have "timespecAt True (79200 div 3600) (79200 mod 3600 div 60) = ''0 00 22 * * *''"
    by (simp add: timespecAt_def String_num_def digits_of.simps)
  then have "filter isCreate
        (snd (scheduleCharging V42 ((CONFIG V42)\<lparr>IS_TEST_MODE := False\<rparr>) (offline_tick ''19:00'')
               (initial_state\<lparr>nextChargingDurationSeconds := 10 * 3600\<rparr>)))
       = [Schedule_Create (Some 0) ''0 00 22 * * *'' 0 (8 * 3600)]"
    using clamp span timeToSeconds_2200 timeToSeconds_0600 cfg by simp
  ultimately show ?thesis
    using span exceeds timeToSeconds_2200 timeToSeconds_0600 by simp
qed

lemma scheduleCharging_V50_does_not_clamp:
  "scheduleCharging V50 (CONFIG V50) (offline_tick ''19:00'')
     (initial_state\<lparr>nextChargingDurationSeconds := 10 * 3600\<rparr>)
   = (initial_state\<lparr>nextChargingDurationSeconds := 10 * 3600\<rparr>,
      [Schedule_List, Schedule_DeleteAll None,
       Schedule_Create None ''0 0 20 * * *'' 0 (10 * 3600)])"
proof -
  have "cronExpr50 (dynamicStart50 (Some 21600) 36000) = ''0 0 20 * * *''"
    by (simp add: cronExpr50_def dynamicStart50_def js_rem_def String_num_def digits_of.simps)
  then show ?thesis
    using timeToSeconds_0600
    by (simp add: scheduleCharging.simps CONFIG_def offline_tick_def initial_state_def Let_def
        sendTelegramNotification_def enumerate_eq_zip)
qed

text \<open>
  Claim C2. Revision 5.0 does not cap the duration. Its \<^verbatim>\<open>scheduleCharging\<close> never reads
  \<^verbatim>\<open>CHARGING_WINDOW_START\<close>, which its configuration documents as the earliest possible
  start time, and compares the duration with nothing. On the shipped window 22:00-06:00,
  whose span is 8 hours, a required duration of 10 hours is scheduled as it is, for 36000
  seconds from 20:00, two hours before the window opens. The heating curve gives these
  10 hours for an average of -5 degrees once \<^verbatim>\<open>MAX_RUNTIME_HOURS\<close> is set to 10.
\<close>

theorem scheduleCharging_V50_exceeds_window:
  "timeToSeconds ''22:00'' = Some 79200 \<and> timeToSeconds ''06:00'' = Some 21600
   \<and> windowDurationSeconds 79200 21600 = 8 * 3600
   \<and> scheduleCharging V50 (CONFIG V50) (offline_tick ''19:00'')
       (initial_state\<lparr>nextChargingDurationSeconds := 10 * 3600\<rparr>)
     = (initial_state\<lparr>nextChargingDurationSeconds := 10 * 3600\<rparr>,
        [Schedule_List, Schedule_DeleteAll None,
         Schedule_Create None ''0 0 20 * * *'' 0 (10 * 3600)])
   \<and> calculateChargingDuration V50 ((CONFIG V50)\<lparr>MAX_RUNTIME_HOURS := 10\<rparr>)
       (offline_tick ''19:00'') initial_state (- 5)
     = (initial_state\<lparr>lastAvgTemp := - 5, nextChargingDurationSeconds := 10 * 3600\<rparr>,
        [Schedule_List, Schedule_DeleteAll None,
         Schedule_Create None ''0 0 20 * * *'' 0 (10 * 3600)])"
proof -
  have cron: "cronExpr50 (dynamicStart50 (Some 21600) 36000) = ''0 0 20 * * *''"
    by (simp add: cronExpr50_def dynamicStart50_def js_rem_def String_num_def digits_of.simps)
  have hours: "Math_round (chargingHours ((CONFIG V50)\<lparr>MAX_RUNTIME_HOURS := 10\<rparr>) (- 5) * 3600)
      = 36000"
    by (simp add: chargingHours_def CONFIG_def Math_round_def)
  have plan: "scheduleCharging V50 ((CONFIG V50)\<lparr>MAX_RUNTIME_HOURS := 10\<rparr>) (offline_tick ''19:00'')
        (initial_state\<lparr>lastAvgTemp := - 5, nextChargingDurationSeconds := 36000\<rparr>)
     = (initial_state\<lparr>lastAvgTemp := - 5, nextChargingDurationSeconds := 36000\<rparr>,
        [Schedule_List, Schedule_DeleteAll None,
         Schedule_Create None ''0 0 20 * * *'' 0 36000])"
    using cron timeToSeconds_0600
    by (simp add: scheduleCharging.simps CONFIG_def offline_tick_def initial_state_def Let_def
        sendTelegramNotification_def enumerate_eq_zip)
  have "calculateChargingDuration V50 ((CONFIG V50)\<lparr>MAX_RUNTIME_HOURS := 10\<rparr>)
       (offline_tick ''19:00'') initial_state (- 5)
     = (initial_state\<lparr>lastAvgTemp := - 5, nextChargingDurationSeconds := 10 * 3600\<rparr>,
        [Schedule_List, Schedule_DeleteAll None,
         Schedule_Create None ''0 0 20 * * *'' 0 (10 * 3600)])"
    using hours plan by simp
  then show ?thesis
    using scheduleCharging_V50_does_not_clamp timeToSeconds_2200 timeToSeconds_0600
    by (simp add: windowDurationSeconds_def)
qed




lemma dynamicStart50_anchored:
  assumes "0 \<le> we" "required \<le> 24 * 3600"
  shows "dynamicStart50 (Some we) required = Some ((we - required + 24 * 3600) mod (24 * 3600))"
  using assms by (simp add: dynamicStart50_def js_rem_nonneg)







lemma zero_duration_fills_window:
  assumes "0 \<le> we" "we < 24 * 3600" "0 < windowDurationSeconds ws we"
  shows "scheduleCharging_window (Some ws) (Some we) 0 = (Some ws, windowDurationSeconds ws we)"
proof -
  have "js_rem (we - 0 + 24 * 3600) (24 * 3600) = we"
    using assms(1,2) js_rem_next_day [of we] by simp
  then show ?thesis
    using assms(3) by (simp add: scheduleCharging_window.simps Let_def)
qed

lemma scheduleCharging_V50_no_charge:
  "\<not> IS_TEST_MODE cfg \<Longrightarrow> nextChargingDurationSeconds st \<le> 0 \<Longrightarrow>
     filter isCreate (snd (scheduleCharging V50 cfg env st)) = []"
  by (simp add: scheduleCharging.simps isCreate_def sendTelegramNotification_def)

text \<open>
  Claim C1. With a required duration of 0, revision 5.0 creates no timed action
  (\<open>scheduleCharging_V50_no_charge\<close>). Revision 4.2 does: the start computed for the
  duration 0 is the end of the window, which lies outside the half-open window, so the
  sanity check of lines 163-174 replaces the duration by the whole span
  (\<open>zero_duration_fills_window\<close>). On the shipped window 22:00-06:00, in production mode,
  the switch is scheduled to charge for 8 hours from 22:00.
\<close>

theorem scheduleCharging_V42_zero_duration:
  "scheduleCharging V42 ((CONFIG V42)\<lparr>IS_TEST_MODE := False\<rparr>) env
     (initial_state\<lparr>nextChargingDurationSeconds := 0\<rparr>)
   = (initial_state\<lparr>nextChargingDurationSeconds := 8 * 3600\<rparr>,
      [Schedule_DeleteAll (Some 0), Schedule_Create (Some 0) ''0 00 22 * * *'' 0 (8 * 3600)])"
proof -
  have "scheduleCharging_window (Some 79200) (Some 21600) 0 = (Some 79200, 28800)"
    using zero_duration_fills_window [of 21600 79200] by (simp add: windowDurationSeconds_def)
  moreover have "cronExpr42 (secondsToTime (Some 79200)) = ''0 00 22 * * *''"
    by (simp add: cronExpr42_def secondsToTime_def js_rem_def String_num_def digits_of.simps
        index_str_def)
  ultimately show ?thesis
    using timeToSeconds_2200 timeToSeconds_0600
    by (simp add: scheduleCharging.simps CONFIG_def initial_state_def
        sendTelegramNotification_def enumerate_eq_zip)
qed

subsection \<open>Failures of the schedule calls\<close>

text \<open>
  Claim C4, with the abort for revision 5.0 only. In \<^verbatim>\<open>scheduleCharging\<close> of revision 5.0,
  outside test mode: when \<^verbatim>\<open>Schedule.List\<close> fails it is the only schedule call issued;
  when \<^verbatim>\<open>Schedule.DeleteAll\<close> fails no \<^verbatim>\<open>Schedule.Create\<close> follows it; and when both
  succeed and the duration is positive, one \<^verbatim>\<open>Schedule.Create\<close> is issued for every
  configured switch, in order, whatever the device answers to any of the creations. In
  revision 4.2, too, a positive final duration gives one \<^verbatim>\<open>Schedule.Create\<close> for every
  configured switch whatever the device answers to any call.
\<close>

theorem schedule_failures:
  assumes "\<not> IS_TEST_MODE cfg"
  shows "(list_err env \<noteq> 0 \<longrightarrow>
            filter isScheduleCall (snd (scheduleCharging V50 cfg env st)) = [Schedule_List])
    \<and> (list_err env = 0 \<and> delete_err env \<noteq> 0 \<longrightarrow>
            filter isScheduleCall (snd (scheduleCharging V50 cfg env st))
              = [Schedule_List, Schedule_DeleteAll None])
    \<and> (list_err env = 0 \<and> delete_err env = 0 \<and> 0 < nextChargingDurationSeconds st \<longrightarrow>
            filter isCreate (snd (scheduleCharging V50 cfg env st))
              = map (\<lambda>switchId.
                       Schedule_Create None
                         (cronExpr50 (dynamicStart50 (timeToSeconds (CHARGING_WINDOW_END cfg))
                                       (nextChargingDurationSeconds st)))
                         switchId (nextChargingDurationSeconds st))
                  (SWITCH_IDS cfg))
    \<and> (0 < snd (scheduleCharging_window (timeToSeconds (CHARGING_WINDOW_START cfg))
                  (timeToSeconds (CHARGING_WINDOW_END cfg)) (nextChargingDurationSeconds st)) \<longrightarrow>
            filter isCreate (snd (scheduleCharging V42 cfg env st))
              = map (\<lambda>id.
                       Schedule_Create (Some id)
                         (cronExpr42 (secondsToTime
                            (fst (scheduleCharging_window
                                    (timeToSeconds (CHARGING_WINDOW_START cfg))
                                    (timeToSeconds (CHARGING_WINDOW_END cfg))
                                    (nextChargingDurationSeconds st)))))
                         id
                         (snd (scheduleCharging_window
                                 (timeToSeconds (CHARGING_WINDOW_START cfg))
                                 (timeToSeconds (CHARGING_WINDOW_END cfg))
                                 (nextChargingDurationSeconds st))))
                  (SWITCH_IDS cfg))"
proof -
  have v42: "filter isCreate (snd (scheduleCharging V42 cfg env st))
              = map (\<lambda>id.
                       Schedule_Create (Some id)
                         (cronExpr42 (secondsToTime
                            (fst (scheduleCharging_window
                                    (timeToSeconds (CHARGING_WINDOW_START cfg))
                                    (timeToSeconds (CHARGING_WINDOW_END cfg))
                                    (nextChargingDurationSeconds st)))))
                         id
                         (snd (scheduleCharging_window
                                 (timeToSeconds (CHARGING_WINDOW_START cfg))
                                 (timeToSeconds (CHARGING_WINDOW_END cfg))
                                 (nextChargingDurationSeconds st))))
                  (SWITCH_IDS cfg)"
    if "0 < snd (scheduleCharging_window (timeToSeconds (CHARGING_WINDOW_START cfg))
                  (timeToSeconds (CHARGING_WINDOW_END cfg)) (nextChargingDurationSeconds st))"
    using assms _ that by (rule scheduleCharging_V42_issued) simp
  show ?thesis
    using assms scheduleCharging_V50_list_failed [of cfg env st]
      scheduleCharging_V50_delete_failed [of cfg env st]
      scheduleCharging_V50_creates [of cfg env st] v42
    by blast
qed

theorem schedule_failures_witness:
  "filter isScheduleCall
     (snd (scheduleCharging V50 ((CONFIG V50)\<lparr>SWITCH_IDS := [0, 1]\<rparr>)
             ((offline_tick ''19:00'')\<lparr>list_err := - 1\<rparr>)
             (initial_state\<lparr>nextChargingDurationSeconds := 6 * 3600\<rparr>))) = [Schedule_List]
   \<and> filter isScheduleCall
     (snd (scheduleCharging V50 ((CONFIG V50)\<lparr>SWITCH_IDS := [0, 1]\<rparr>)
             ((offline_tick ''19:00'')\<lparr>delete_err := - 1\<rparr>)
             (initial_state\<lparr>nextChargingDurationSeconds := 6 * 3600\<rparr>)))
       = [Schedule_List, Schedule_DeleteAll None]
   \<and> filter isCreate
     (snd (scheduleCharging V50 ((CONFIG V50)\<lparr>SWITCH_IDS := [0, 1]\<rparr>)
             ((offline_tick ''19:00'')\<lparr>create_err := (\<lambda>i. if i = 0 then - 1 else 0)\<rparr>)
             (initial_state\<lparr>nextChargingDurationSeconds := 6 * 3600\<rparr>)))
       = [Schedule_Create None ''0 0 0 * * *'' 0 (6 * 3600),
          Schedule_Create None ''0 0 0 * * *'' 1 (6 * 3600)]
   \<and> filter isCreate
     (snd (scheduleCharging V42 ((CONFIG V50)\<lparr>SWITCH_IDS := [0, 1]\<rparr>)
             ((offline_tick ''19:00'')\<lparr>create_err := (\<lambda>i. if i = 0 then - 1 else 0)\<rparr>)
             (initial_state\<lparr>nextChargingDurationSeconds := 6 * 3600\<rparr>)))
       = [Schedule_Create (Some 0) ''0 00 00 * * *'' 0 (6 * 3600),
          Schedule_Create (Some 1) ''0 00 00 * * *'' 1 (6 * 3600)]"
proof -
  have prod: "\<not> IS_TEST_MODE ((CONFIG V50)\<lparr>SWITCH_IDS := [0, 1]\<rparr>)"
    by (simp add: CONFIG_def)
  have cfg: "CHARGING_WINDOW_START ((CONFIG V50)\<lparr>SWITCH_IDS := [0, 1]\<rparr>) = ''22:00''"
    "CHARGING_WINDOW_END ((CONFIG V50)\<lparr>SWITCH_IDS := [0, 1]\<rparr>) = ''06:00''"
    by (simp_all add: CONFIG_def)
  have cron: "cronExpr50 (dynamicStart50 (Some 21600) 21600) = ''0 0 0 * * *''"
    by (simp add: cronExpr50_def dynamicStart50_def js_rem_def String_num_def digits_of.simps)
  have window: "scheduleCharging_window (Some 79200) (Some 21600) 21600 = (Some 0, 21600)"
    by (simp add: scheduleCharging_window.simps windowDurationSeconds_def js_rem_def Let_def)
  have cron42: "cronExpr42 (secondsToTime (Some 0)) = ''0 00 00 * * *''"
    by (simp add: cronExpr42_def secondsToTime_def js_rem_def String_num_def digits_of.simps
        index_str_def)
  note sched = schedule_failures [OF prod]
  have "filter isScheduleCall
     (snd (scheduleCharging V50 ((CONFIG V50)\<lparr>SWITCH_IDS := [0, 1]\<rparr>)
             ((offline_tick ''19:00'')\<lparr>list_err := - 1\<rparr>)
             (initial_state\<lparr>nextChargingDurationSeconds := 6 * 3600\<rparr>))) = [Schedule_List]"
    using sched [of "(offline_tick ''19:00'')\<lparr>list_err := - 1\<rparr>"] by simp
  moreover have "filter isScheduleCall
     (snd (scheduleCharging V50 ((CONFIG V50)\<lparr>SWITCH_IDS := [0, 1]\<rparr>)
             ((offline_tick ''19:00'')\<lparr>delete_err := - 1\<rparr>)
             (initial_state\<lparr>nextChargingDurationSeconds := 6 * 3600\<rparr>)))
       = [Schedule_List, Schedule_DeleteAll None]"
    using sched [of "(offline_tick ''19:00'')\<lparr>delete_err := - 1\<rparr>"]
    by (simp add: offline_tick_def)
  moreover have "filter isCreate
     (snd (scheduleCharging V50 ((CONFIG V50)\<lparr>SWITCH_IDS := [0, 1]\<rparr>)
             ((offline_tick ''19:00'')\<lparr>create_err := (\<lambda>i. if i = 0 then - 1 else 0)\<rparr>)
             (initial_state\<lparr>nextChargingDurationSeconds := 6 * 3600\<rparr>)))
       = [Schedule_Create None ''0 0 0 * * *'' 0 (6 * 3600),
          Schedule_Create None ''0 0 0 * * *'' 1 (6 * 3600)]"
    using sched [of "(offline_tick ''19:00'')\<lparr>create_err := (\<lambda>i. if i = 0 then - 1 else 0)\<rparr>"
        "initial_state\<lparr>nextChargingDurationSeconds := 6 * 3600\<rparr>"] cron timeToSeconds_0600
    by (simp add: offline_tick_def CONFIG_def initial_state_def)
  moreover have "filter isCreate
     (snd (scheduleCharging V42 ((CONFIG V50)\<lparr>SWITCH_IDS := [0, 1]\<rparr>)
             ((offline_tick ''19:00'')\<lparr>create_err := (\<lambda>i. if i = 0 then - 1 else 0)\<rparr>)
             (initial_state\<lparr>nextChargingDurationSeconds := 6 * 3600\<rparr>)))
       = [Schedule_Create (Some 0) ''0 00 00 * * *'' 0 (6 * 3600),
          Schedule_Create (Some 1) ''0 00 00 * * *'' 1 (6 * 3600)]"
    using sched [of "(offline_tick ''19:00'')\<lparr>create_err := (\<lambda>i. if i = 0 then - 1 else 0)\<rparr>"
        "initial_state\<lparr>nextChargingDurationSeconds := 6 * 3600\<rparr>"]
      cfg timeToSeconds_2200 timeToSeconds_0600 window cron42
    by (simp add: initial_state_def)
  ultimately show ?thesis by blast
qed

text \<open>
  Revision 4.2 has no list step and passes no callback to \<^verbatim>\<open>Schedule.DeleteAll\<close>: when
  the deletion fails the creation of every switch follows all the same.
\<close>

theorem scheduleCharging_V42_creates_after_failed_delete:
  "delete_err ((offline_tick ''19:00'')\<lparr>delete_err := - 1\<rparr>) \<noteq> 0
   \<and> snd (scheduleCharging V42 ((CONFIG V42)\<lparr>IS_TEST_MODE := False, SWITCH_IDS := [0, 1]\<rparr>)
            ((offline_tick ''19:00'')\<lparr>delete_err := - 1\<rparr>)
            (initial_state\<lparr>nextChargingDurationSeconds := 6 * 3600\<rparr>))
     = [Schedule_DeleteAll (Some 0), Schedule_Create (Some 0) ''0 00 00 * * *'' 0 (6 * 3600),
        Schedule_DeleteAll (Some 1), Schedule_Create (Some 1) ''0 00 00 * * *'' 1 (6 * 3600)]"
proof -
  have window: "scheduleCharging_window (Some 79200) (Some 21600) 21600 = (Some 0, 21600)"
    by (simp add: scheduleCharging_window.simps windowDurationSeconds_def js_rem_def Let_def)
  have cron42: "cronExpr42 (secondsToTime (Some 0)) = ''0 00 00 * * *''"
    by (simp add: cronExpr42_def secondsToTime_def js_rem_def String_num_def digits_of.simps
        index_str_def)
  show ?thesis
    using timeToSeconds_2200 timeToSeconds_0600 window cron42
    by (simp add: scheduleCharging.simps CONFIG_def initial_state_def offline_tick_def
        sendTelegramNotification_def enumerate_eq_zip)
qed

subsection \<open>Test mode\<close>

lemma weatherFailed_unfold:
  "weatherFailed rv cfg env st msg =
     (fst (calculateFallbackDuration rv cfg env st),
      sendTelegramNotification rv cfg msg @ snd (calculateFallbackDuration rv cfg env st))"
  by (simp add: weatherFailed_def case_prod_beta)

lemma getWeatherAndCalculateDuration_unfold:
  "getWeatherAndCalculateDuration rv cfg env st =
     (fst (weatherCallback rv cfg env st),
      HTTP_GET (weatherUrl cfg) # snd (weatherCallback rv cfg env st))"
  by (simp add: getWeatherAndCalculateDuration_def case_prod_beta)

lemma calculateChargingDuration_unfold:
  "calculateChargingDuration rv cfg env st avgTemp =
     scheduleCharging rv cfg env
       (case rv of
          V42 \<Rightarrow> st\<lparr>nextChargingDurationSeconds := Math_round (chargingHours cfg avgTemp * 3600)\<rparr>
        | V50 \<Rightarrow> st\<lparr>lastAvgTemp := avgTemp,
                     nextChargingDurationSeconds := Math_round (chargingHours cfg avgTemp * 3600)\<rparr>)"
  by (cases rv) simp_all

lemma scheduleCharging_test_mode:
  "IS_TEST_MODE cfg \<Longrightarrow> snd (scheduleCharging rv cfg env st) = []"
  by (cases rv) (simp_all add: scheduleCharging.simps Let_def split: prod.splits)

lemma weatherCallback_cases:
  "(\<exists>msg. weatherCallback rv cfg env st = weatherFailed rv cfg env st msg)
   \<or> (\<exists>avgTemp. weatherCallback rv cfg env st = calculateChargingDuration rv cfg env st avgTemp)"
  unfolding weatherCallback_def Let_def
  by (cases "weather_res env"; cases "body (the (weather_res env))") auto

lemma weatherCallback_test_mode:
  assumes "IS_TEST_MODE cfg"
  shows "filter isScheduleCall (snd (weatherCallback rv cfg env st)) = []"
proof -
  consider msg where "weatherCallback rv cfg env st = weatherFailed rv cfg env st msg"
    | avgTemp where "weatherCallback rv cfg env st = calculateChargingDuration rv cfg env st avgTemp"
    using weatherCallback_cases [of rv cfg env st] by blast
  then show ?thesis
  proof cases
    case 1
    then show ?thesis
      using assms
      by (simp add: weatherFailed_unfold calculateFallbackDuration_unfold
          scheduleCharging_test_mode isScheduleCall_def)
  next
    case 2
    then show ?thesis
      using assms by (simp add: calculateChargingDuration_unfold scheduleCharging_test_mode)
  qed
qed

text \<open>
  Claim C10. With the test-mode flag set, \<^verbatim>\<open>scheduleCharging\<close> issues no call at all, in
  both revisions, and a whole decision cycle issues no \<^verbatim>\<open>Schedule.List\<close>,
  \<^verbatim>\<open>Schedule.DeleteAll\<close> or \<^verbatim>\<open>Schedule.Create\<close>: the schedules stored on the device are
  not touched.
\<close>

theorem test_mode_issues_no_schedule_call:
  assumes "IS_TEST_MODE cfg"
  shows "snd (scheduleCharging rv cfg env st) = []
    \<and> filter isScheduleCall (snd (getWeatherAndCalculateDuration rv cfg env st)) = []"
  using assms
  by (simp add: scheduleCharging_test_mode getWeatherAndCalculateDuration_unfold
      weatherCallback_test_mode isScheduleCall_def)

theorem test_mode_issues_no_schedule_call_witness:
  "IS_TEST_MODE (CONFIG V42)
   \<and> snd (scheduleCharging V42 (CONFIG V42) (offline_tick ''19:00'')
            (initial_state\<lparr>nextChargingDurationSeconds := 6 * 3600\<rparr>)) = []
   \<and> filter isScheduleCall
        (snd (getWeatherAndCalculateDuration V42 (CONFIG V42) (offline_tick ''19:00'') initial_state))
       = []
   \<and> snd (getWeatherAndCalculateDuration V50 ((CONFIG V50)\<lparr>IS_TEST_MODE := True\<rparr>)
            (offline_tick ''19:00'') initial_state)
       = [HTTP_GET (weatherUrl (CONFIG V50)), Sys_GetStatus]"
proof -
  have t42: "IS_TEST_MODE (CONFIG V42)"
    by (simp add: CONFIG_def)
  have t50: "IS_TEST_MODE ((CONFIG V50)\<lparr>IS_TEST_MODE := True\<rparr>)"
    by simp
  have "snd (scheduleCharging V50 ((CONFIG V50)\<lparr>IS_TEST_MODE := True\<rparr>) (offline_tick ''19:00'') s) = []"
    for s
    using test_mode_issues_no_schedule_call [OF t50] by blast
  then have "snd (getWeatherAndCalculateDuration V50 ((CONFIG V50)\<lparr>IS_TEST_MODE := True\<rparr>)
            (offline_tick ''19:00'') initial_state)
       = [HTTP_GET (weatherUrl (CONFIG V50)), Sys_GetStatus]"
    by (simp add: getWeatherAndCalculateDuration_unfold weatherCallback_def weatherFailed_unfold
        calculateFallbackDuration_unfold offline_tick_def sendTelegramNotification_def
        CONFIG_def weatherUrl_def)
  then show ?thesis
    using t42 test_mode_issues_no_schedule_call [OF t42] by blast
qed

subsection \<open>The daily trigger\<close>

lemma notification_not_forecast [simp]:
  "HTTP_GET (weatherUrl cfg) \<notin> set (sendTelegramNotification rv cfg msg)"
  by (simp add: sendTelegramNotification_def telegramUrl_def weatherUrl_def)

lemma scheduleCharging_not_forecast:
  "HTTP_GET (weatherUrl cfg) \<notin> set (snd (scheduleCharging rv cfg env st))"
  by (cases rv) (auto simp: scheduleCharging.simps Let_def split: prod.splits if_splits)

lemma weatherCallback_not_forecast:
  "HTTP_GET (weatherUrl cfg) \<notin> set (snd (weatherCallback rv cfg env st))"
proof -
  consider msg where "weatherCallback rv cfg env st = weatherFailed rv cfg env st msg"
    | avgTemp where "weatherCallback rv cfg env st = calculateChargingDuration rv cfg env st avgTemp"
    using weatherCallback_cases [of rv cfg env st] by blast
  then show ?thesis
  proof cases
    case 1
    then show ?thesis
      by (simp add: weatherFailed_unfold calculateFallbackDuration_unfold
          scheduleCharging_not_forecast)
  next
    case 2
    then show ?thesis
      by (simp add: calculateChargingDuration_unfold scheduleCharging_not_forecast)
  qed
qed

lemma cycles_simps [simp]:
  "cycles cfg [] = 0"
  "cycles cfg (a @ b) = cycles cfg a + cycles cfg b"
  "cycles cfg (Sys_GetStatus # a) = cycles cfg a"
  "cycles cfg (HTTP_GET (weatherUrl cfg) # a) = Suc (cycles cfg a)"
  by (simp_all add: cycles_def)

lemma cycles_0: "HTTP_GET (weatherUrl cfg) \<notin> set calls \<Longrightarrow> cycles cfg calls = 0"
  by (simp add: cycles_def)

lemma cycles_getWeather: "cycles cfg (snd (getWeatherAndCalculateDuration rv cfg env st)) = 1"
  by (simp add: getWeatherAndCalculateDuration_unfold cycles_0 weatherCallback_not_forecast)

lemma scheduleCharging_flag:
  "hasRunToday (fst (scheduleCharging rv cfg env st)) = hasRunToday st"
  by (cases rv) (simp_all add: scheduleCharging.simps Let_def split: prod.splits)

lemma weatherCallback_flag:
  "hasRunToday (fst (weatherCallback rv cfg env st)) = hasRunToday st"
proof -
  consider msg where "weatherCallback rv cfg env st = weatherFailed rv cfg env st msg"
    | avgTemp where "weatherCallback rv cfg env st = calculateChargingDuration rv cfg env st avgTemp"
    using weatherCallback_cases [of rv cfg env st] by blast
  then show ?thesis
  proof cases
    case 1
    then show ?thesis
      by (simp add: weatherFailed_unfold calculateFallbackDuration_unfold scheduleCharging_flag)
  next
    case 2
    then show ?thesis
      by (cases rv) (simp_all add: calculateChargingDuration_unfold scheduleCharging_flag)
  qed
qed

lemma tick_time_Some:
  "tick_time env = Some t \<longleftrightarrow> (\<exists>result. tick_status env = Some result \<and> time result = t \<and> t \<noteq> [])"
  by (auto simp: tick_time_def split: option.splits)

lemma tick_time_None:
  "tick_time env = None \<longleftrightarrow>
     (tick_status env = None \<or> (\<exists>result. tick_status env = Some result \<and> time result = []))"
  by (auto simp: tick_time_def split: option.splits)

lemma dailyCheck_unfold:
  "dailyCheck cfg env st =
     (fst (dailyCheckCallback cfg env st), Sys_GetStatus # snd (dailyCheckCallback cfg env st))"
  by (simp add: dailyCheck_def case_prod_beta)

lemma dailyCheck_no_time:
  "tick_time env = None \<Longrightarrow> dailyCheck cfg env st = (st, [Sys_GetStatus])"
  by (auto simp: dailyCheck_unfold dailyCheckCallback_def tick_time_None)

lemma flag_False_idle: "\<not> hasRunToday st \<Longrightarrow> st\<lparr>hasRunToday := False\<rparr> = st"
  by (cases st) simp

lemma dailyCheck_fires:
  assumes "tick_time env = Some (DATA_FETCH_TIME cfg)" "\<not> hasRunToday st"
    and "DATA_FETCH_TIME cfg \<noteq> ''00:01''"
  shows "dailyCheck cfg env st =
     ((fst (getWeatherAndCalculateDuration V50 cfg env st))\<lparr>hasRunToday := True\<rparr>,
      Sys_GetStatus # sendTelegramNotification V50 cfg startMsg
        @ snd (getWeatherAndCalculateDuration V50 cfg env st))"
  using assms
  by (auto simp: dailyCheck_unfold dailyCheckCallback_def tick_time_Some Let_def case_prod_beta)

lemma dailyCheck_resets:
  assumes "tick_time env = Some ''00:01''" "DATA_FETCH_TIME cfg \<noteq> ''00:01''"
  shows "dailyCheck cfg env st = (st\<lparr>hasRunToday := False\<rparr>, [Sys_GetStatus])"
  using assms
  by (auto simp: dailyCheck_unfold dailyCheckCallback_def tick_time_Some Let_def flag_False_idle)

lemma dailyCheck_idle:
  assumes "tick_time env \<noteq> Some ''00:01''"
    and "tick_time env \<noteq> Some (DATA_FETCH_TIME cfg) \<or> hasRunToday st"
  shows "dailyCheck cfg env st = (st, [Sys_GetStatus])"
proof (cases "tick_time env")
  case None
  then show ?thesis by (rule dailyCheck_no_time)
next
  case (Some t)
  then show ?thesis
    using assms
    by (auto simp: dailyCheck_unfold dailyCheckCallback_def tick_time_Some Let_def)
qed

lemma dailyCheck_cycles:
  "cycles cfg (snd (dailyCheck cfg env st))
     = (if tick_time env = Some (DATA_FETCH_TIME cfg) \<and> \<not> hasRunToday st then 1 else 0)"
proof (cases "tick_time env")
  case None
  then show ?thesis by (simp add: dailyCheck_no_time)
next
  case (Some t)
  then show ?thesis
    by (auto simp: dailyCheck_unfold dailyCheckCallback_def tick_time_Some Let_def case_prod_beta
        cycles_getWeather cycles_0)
qed

lemma getWeather_flag:
  "hasRunToday (fst (getWeatherAndCalculateDuration rv cfg env st)) = hasRunToday st"
  by (simp add: getWeatherAndCalculateDuration_unfold weatherCallback_flag)

lemma dailyCheck_flag:
  "hasRunToday (fst (dailyCheck cfg env st))
     = (if tick_time env = Some ''00:01'' then False
        else if tick_time env = Some (DATA_FETCH_TIME cfg) \<and> \<not> hasRunToday st then True
        else hasRunToday st)"
proof (cases "tick_time env")
  case None
  then show ?thesis by (simp add: dailyCheck_no_time)
next
  case (Some t)
  then obtain result where result: "tick_status env = Some result" "time result = t" "t \<noteq> []"
    by (auto simp: tick_time_Some)
  show ?thesis
  proof (cases "t = DATA_FETCH_TIME cfg \<and> \<not> hasRunToday st")
    case True
    then show ?thesis
      using Some result
      by (cases "t = ''00:01''")
        (simp_all add: dailyCheck_unfold dailyCheckCallback_def Let_def case_prod_beta)
  next
    case False
    then show ?thesis
      using Some result
      by (cases "t = ''00:01''")
        (auto simp: dailyCheck_unfold dailyCheckCallback_def Let_def case_prod_beta)
  qed
qed

lemma timer_ticks_Cons:
  "timer_ticks cfg st (env # envs) =
     (fst (timer_ticks cfg (fst (dailyCheck cfg env st)) envs),
      snd (dailyCheck cfg env st) @ snd (timer_ticks cfg (fst (dailyCheck cfg env st)) envs))"
  by (simp add: case_prod_beta)

lemma tick_times_Cons:
  "tick_times (env # envs) = (case tick_time env of None \<Rightarrow> [] | Some t \<Rightarrow> [t]) @ tick_times envs"
  by (simp add: tick_times_def)

lemma no_fetch_tick_no_cycle:
  "DATA_FETCH_TIME cfg \<notin> set (tick_times envs) \<Longrightarrow> cycles cfg (snd (timer_ticks cfg st envs)) = 0"
proof (induction envs arbitrary: st)
  case Nil
  show ?case by simp
next
  case (Cons env envs)
  from Cons.prems have "tick_time env \<noteq> Some (DATA_FETCH_TIME cfg)"
    and "DATA_FETCH_TIME cfg \<notin> set (tick_times envs)"
    by (auto simp: tick_times_Cons)
  then show ?case
    using Cons.IH by (simp add: timer_ticks_Cons dailyCheck_cycles del: timer_ticks.simps)
qed

lemma ran_today_no_cycle:
  assumes "DATA_FETCH_TIME cfg \<noteq> ''00:01''"
  shows "sorted (tick_times envs) \<Longrightarrow> hasRunToday st \<Longrightarrow>
     \<forall>t \<in> set (tick_times envs). DATA_FETCH_TIME cfg \<le> t \<Longrightarrow>
     cycles cfg (snd (timer_ticks cfg st envs)) = 0"
proof (induction envs arbitrary: st)
  case Nil
  show ?case by simp
next
  case (Cons env envs)
  have here: "cycles cfg (snd (dailyCheck cfg env st)) = 0"
    using Cons.prems(2) by (simp add: dailyCheck_cycles)
  have rest_sorted: "sorted (tick_times envs)"
    using Cons.prems(1) by (simp add: tick_times_Cons sorted_append)
  have rest_late: "\<forall>t \<in> set (tick_times envs). DATA_FETCH_TIME cfg \<le> t"
    using Cons.prems(3) by (simp add: tick_times_Cons)
  have "cycles cfg (snd (timer_ticks cfg (fst (dailyCheck cfg env st)) envs)) = 0"
  proof (cases "tick_time env = None \<or> tick_time env = Some (DATA_FETCH_TIME cfg)")
    case True
    then have "hasRunToday (fst (dailyCheck cfg env st))"
      using Cons.prems(2) assms by (auto simp: dailyCheck_flag)
    then show ?thesis
      using Cons.IH [OF rest_sorted _ rest_late] by simp
  next
    case False
    then obtain t where t: "tick_time env = Some t" "t \<noteq> DATA_FETCH_TIME cfg"
      by auto
    then have "DATA_FETCH_TIME cfg < t"
      using Cons.prems(3) by (auto simp: tick_times_Cons)
    moreover have "\<forall>u \<in> set (tick_times envs). t \<le> u"
      using Cons.prems(1) t(1) by (simp add: tick_times_Cons)
    ultimately have "DATA_FETCH_TIME cfg \<notin> set (tick_times envs)"
      by auto
    then show ?thesis by (rule no_fetch_tick_no_cycle)
  qed
  then show ?case
    using here by (simp add: timer_ticks_Cons del: timer_ticks.simps)
qed

lemma at_most_one_cycle:
  assumes "DATA_FETCH_TIME cfg \<noteq> ''00:01''"
  shows "sorted (tick_times envs) \<Longrightarrow> cycles cfg (snd (timer_ticks cfg st envs)) \<le> 1"
proof (induction envs arbitrary: st)
  case Nil
  show ?case by simp
next
  case (Cons env envs)
  have rest_sorted: "sorted (tick_times envs)"
    using Cons.prems by (simp add: tick_times_Cons sorted_append)
  show ?case
  proof (cases "tick_time env = Some (DATA_FETCH_TIME cfg) \<and> \<not> hasRunToday st")
    case True
    then have "hasRunToday (fst (dailyCheck cfg env st))"
      using assms by (simp add: dailyCheck_flag)
    moreover have "\<forall>t \<in> set (tick_times envs). DATA_FETCH_TIME cfg \<le> t"
      using Cons.prems True by (simp add: tick_times_Cons)
    ultimately have "cycles cfg (snd (timer_ticks cfg (fst (dailyCheck cfg env st)) envs)) = 0"
      using rest_sorted assms by (intro ran_today_no_cycle)
    then show ?thesis
      using True by (simp add: timer_ticks_Cons dailyCheck_cycles del: timer_ticks.simps)
  next
    case False
    then have "cycles cfg (snd (dailyCheck cfg env st)) = 0"
      by (simp add: dailyCheck_cycles)
    then show ?thesis
      using Cons.IH [OF rest_sorted, of "fst (dailyCheck cfg env st)"]
      by (simp add: timer_ticks_Cons del: timer_ticks.simps)
  qed
qed

text \<open>
  For a fetch time other than 00:01 the trigger works as intended. A tick whose time is
  the fetch time, in state Idle, runs one decision cycle and leaves \<^verbatim>\<open>hasRunToday\<close> true; a
  tick at 00:01 resets \<^verbatim>\<open>hasRunToday\<close> and runs no cycle; every other tick issues its
  status query and nothing else, and changes no state. Over the ticks of one calendar
  day, which carry times in ascending order (texts of the form HH:MM compare as the times
  of day do), at most one cycle runs, from any state at the start of the day and however
  many ticks carry the same minute.
\<close>

lemma dailyCheck_once_a_day:
  assumes "DATA_FETCH_TIME cfg \<noteq> ''00:01''"
  shows "(tick_time env = Some (DATA_FETCH_TIME cfg) \<and> \<not> hasRunToday st \<longrightarrow>
            dailyCheck cfg env st =
              ((fst (getWeatherAndCalculateDuration V50 cfg env st))\<lparr>hasRunToday := True\<rparr>,
               Sys_GetStatus # sendTelegramNotification V50 cfg startMsg
                 @ snd (getWeatherAndCalculateDuration V50 cfg env st))
            \<and> cycles cfg (snd (dailyCheck cfg env st)) = 1
            \<and> hasRunToday (fst (dailyCheck cfg env st)))
    \<and> (tick_time env = Some ''00:01'' \<longrightarrow>
            dailyCheck cfg env st = (st\<lparr>hasRunToday := False\<rparr>, [Sys_GetStatus]))
    \<and> (tick_time env \<noteq> Some ''00:01''
         \<and> (tick_time env \<noteq> Some (DATA_FETCH_TIME cfg) \<or> hasRunToday st) \<longrightarrow>
            dailyCheck cfg env st = (st, [Sys_GetStatus]))
    \<and> (sorted (tick_times envs) \<longrightarrow> cycles cfg (snd (timer_ticks cfg st envs)) \<le> 1)"
proof -
  have fires: "dailyCheck cfg env st =
              ((fst (getWeatherAndCalculateDuration V50 cfg env st))\<lparr>hasRunToday := True\<rparr>,
               Sys_GetStatus # sendTelegramNotification V50 cfg startMsg
                 @ snd (getWeatherAndCalculateDuration V50 cfg env st))
            \<and> cycles cfg (snd (dailyCheck cfg env st)) = 1
            \<and> hasRunToday (fst (dailyCheck cfg env st))"
    if "tick_time env = Some (DATA_FETCH_TIME cfg)" "\<not> hasRunToday st"
  proof (intro conjI)
    show "dailyCheck cfg env st =
              ((fst (getWeatherAndCalculateDuration V50 cfg env st))\<lparr>hasRunToday := True\<rparr>,
               Sys_GetStatus # sendTelegramNotification V50 cfg startMsg
                 @ snd (getWeatherAndCalculateDuration V50 cfg env st))"
      using that assms by (rule dailyCheck_fires)
    show "cycles cfg (snd (dailyCheck cfg env st)) = 1"
      using that by (simp add: dailyCheck_cycles)
    show "hasRunToday (fst (dailyCheck cfg env st))"
      using that assms by (simp add: dailyCheck_flag)
  qed
  have resets: "dailyCheck cfg env st = (st\<lparr>hasRunToday := False\<rparr>, [Sys_GetStatus])"
    if "tick_time env = Some ''00:01''"
    using that assms by (rule dailyCheck_resets)
  have idle: "dailyCheck cfg env st = (st, [Sys_GetStatus])"
    if "tick_time env \<noteq> Some ''00:01''"
      "tick_time env \<noteq> Some (DATA_FETCH_TIME cfg) \<or> hasRunToday st"
    using that by (rule dailyCheck_idle)
  have once: "cycles cfg (snd (timer_ticks cfg st envs)) \<le> 1" if "sorted (tick_times envs)"
    using assms that by (rule at_most_one_cycle)
  show ?thesis
    using fires resets idle once by blast
qed

lemma tick_time_offline [simp]: "tick_time (offline_tick t) = (if t = [] then None else Some t)"
  by (simp add: tick_time_def offline_tick_def)

lemma dailyCheck_once_a_day_witness:
  "DATA_FETCH_TIME (CONFIG V50) \<noteq> ''00:01''
   \<and> sorted (tick_times (map offline_tick
                 [''00:00'', ''00:01'', ''18:59'', ''19:00'', ''19:00'', ''19:01'', ''23:59'']))
   \<and> cycles (CONFIG V50)
        (snd (timer_ticks (CONFIG V50) initial_state
               (map offline_tick
                 [''00:00'', ''00:01'', ''18:59'', ''19:00'', ''19:00'', ''19:01'', ''23:59'']))) = 1
   \<and> dailyCheck (CONFIG V50) (offline_tick ''00:01'') (initial_state\<lparr>hasRunToday := True\<rparr>)
        = (initial_state, [Sys_GetStatus])
   \<and> dailyCheck (CONFIG V50) (offline_tick ''19:00'') (initial_state\<lparr>hasRunToday := True\<rparr>)
        = (initial_state\<lparr>hasRunToday := True\<rparr>, [Sys_GetStatus])"
proof -
  have fetch: "DATA_FETCH_TIME (CONFIG V50) \<noteq> ''00:01''"
    by (simp add: CONFIG_def)
  note day = dailyCheck_once_a_day [OF fetch]
  have times: "tick_times (map offline_tick
                 [''00:00'', ''00:01'', ''18:59'', ''19:00'', ''19:00'', ''19:01'', ''23:59''])
        = [''00:00'', ''00:01'', ''18:59'', ''19:00'', ''19:00'', ''19:01'', ''23:59'']"
    by (simp add: tick_times_def)
  have sorted: "sorted (tick_times (map offline_tick
                 [''00:00'', ''00:01'', ''18:59'', ''19:00'', ''19:00'', ''19:01'', ''23:59'']))"
    unfolding times by simp
  have le: "cycles (CONFIG V50)
        (snd (timer_ticks (CONFIG V50) initial_state
               (map offline_tick
                 [''00:00'', ''00:01'', ''18:59'', ''19:00'', ''19:00'', ''19:01'', ''23:59''])))
        \<le> 1"
    using day sorted by blast
  have ge: "1 \<le> cycles (CONFIG V50)
        (snd (timer_ticks (CONFIG V50) initial_state
               (map offline_tick
                 [''00:00'', ''00:01'', ''18:59'', ''19:00'', ''19:00'', ''19:01'', ''23:59''])))"
    by (simp add: timer_ticks_Cons dailyCheck_cycles dailyCheck_flag CONFIG_def initial_state_def
        del: timer_ticks.simps)
  have reset: "dailyCheck (CONFIG V50) (offline_tick ''00:01'') (initial_state\<lparr>hasRunToday := True\<rparr>)
        = (initial_state, [Sys_GetStatus])"
    using day [of "offline_tick ''00:01''" "initial_state\<lparr>hasRunToday := True\<rparr>"]
    by (simp add: initial_state_def)
  have idle: "dailyCheck (CONFIG V50) (offline_tick ''19:00'') (initial_state\<lparr>hasRunToday := True\<rparr>)
        = (initial_state\<lparr>hasRunToday := True\<rparr>, [Sys_GetStatus])"
    using day [of "offline_tick ''19:00''" "initial_state\<lparr>hasRunToday := True\<rparr>"]
    by simp
  show ?thesis
    using fetch sorted le ge reset idle by simp
qed

text \<open>
  Claim C3. With the fetch time 00:01 the trigger runs more than one cycle a day. The
  tick at 00:01, in state Idle, runs a cycle and sets \<^verbatim>\<open>hasRunToday\<close>, and the same call of
  \<^verbatim>\<open>dailyCheck\<close> then finds the time of the reset and clears the flag again. The state stays
  Idle, and a second tick within that minute runs a second cycle, although the flag is
  there to keep the calculation from running several times a day.
\<close>

theorem dailyCheck_fetch_at_0001:
  "tick_time (offline_tick ''00:01'') = Some (DATA_FETCH_TIME ((CONFIG V50)\<lparr>DATA_FETCH_TIME := ''00:01''\<rparr>))
   \<and> \<not> hasRunToday initial_state
   \<and> cycles ((CONFIG V50)\<lparr>DATA_FETCH_TIME := ''00:01''\<rparr>)
        (snd (dailyCheck ((CONFIG V50)\<lparr>DATA_FETCH_TIME := ''00:01''\<rparr>)
               (offline_tick ''00:01'') initial_state)) = 1
   \<and> \<not> hasRunToday
          (fst (dailyCheck ((CONFIG V50)\<lparr>DATA_FETCH_TIME := ''00:01''\<rparr>)
                 (offline_tick ''00:01'') initial_state))
   \<and> sorted (tick_times [offline_tick ''00:01'', offline_tick ''00:01''])
   \<and> cycles ((CONFIG V50)\<lparr>DATA_FETCH_TIME := ''00:01''\<rparr>)
        (snd (timer_ticks ((CONFIG V50)\<lparr>DATA_FETCH_TIME := ''00:01''\<rparr>) initial_state
               [offline_tick ''00:01'', offline_tick ''00:01''])) = 2"
  by (simp add: timer_ticks_Cons dailyCheck_cycles dailyCheck_flag initial_state_def
      tick_times_def del: timer_ticks.simps(2))

subsection \<open>Failure of the forecast\<close>










lemma offline_tick_status [simp]:
  "fallback_status (offline_tick t) = Some \<lparr> time = t, month = 1 \<rparr>"
  by (simp add: offline_tick_def)

lemma offline_tick_schedule [simp]:
  "list_err (offline_tick t) = 0" "delete_err (offline_tick t) = 0"
  by (simp_all add: offline_tick_def)






end
